theory Spec2Isabelle
  imports
    Main
    "HOL-Library.Word"
    "HOL-Library.Signed_Division"
    "HOL-Library.Sublist"
    "HOL-Library.Char_ord"
    "HOL-Library.List_Lexorder"
begin

section \<open>Values shared by the two tools\<close>

text \<open>
  The repository holds two command line tools: \<^verbatim>\<open>main.go\<close> lists the KMS keys of an
  account and prints two text tables, \<^verbatim>\<open>secpq.go\<close> lists the secrets of an account and
  writes them to a Parquet file (twice, for two Parquet libraries; the two copies differ
  in the encoding of the creation date and in \<^verbatim>\<open>writeParquet\<close> only).

  Go strings are byte strings: \<^typ>\<open>string\<close>, with \<^const>\<open>length\<close> for \<^verbatim>\<open>len\<close>.
  The order of \<^verbatim>\<open>sort.Strings\<close> is the bytewise lexicographic one, which is the order
  of \<^typ>\<open>char list\<close> here.
\<close>

text \<open>
  A Go \<^verbatim>\<open>error\<close> as the code reads it: \<^verbatim>\<open>err.Error()\<close>, and the \<^verbatim>\<open>ErrorCode()\<close> of the
  first \<^verbatim>\<open>smithy.APIError\<close> that \<^verbatim>\<open>errors.As\<close> finds in its chain, if there is one.
\<close>

record goerror =
  errorText :: string
  errorCode :: "string option"

text \<open>\<^verbatim>\<open>fmt.Errorf("prefix: %w", err)\<close>: the text is prefixed, the chain is kept.\<close>

definition Errorf_w :: "string \<Rightarrow> goerror \<Rightarrow> goerror" where
  "Errorf_w msg err = err\<lparr>errorText := msg @ errorText err\<rparr>"

text \<open>\<^verbatim>\<open>strings.Contains(s, substr)\<close>.\<close>

definition strings_Contains :: "string \<Rightarrow> string \<Rightarrow> bool" where
  "strings_Contains s substr = sublist substr s"

text \<open>
  A \<^verbatim>\<open>time.Time\<close>: the seconds since the Unix epoch that \<^verbatim>\<open>Unix()\<close> returns (an
  \<^verbatim>\<open>int64\<close>) and the nanoseconds within the second.
\<close>

record time =
  Unix :: "64 word"
  Nanosecond :: "32 word"

text \<open>The zero \<^verbatim>\<open>time.Time{}\<close>, January 1 of year 1, 00:00:00 UTC.\<close>

definition zeroTime :: time where
  "zeroTime = \<lparr>Unix = word_of_int (- 62135596800), Nanosecond = 0\<rparr>"

text \<open>Reading a Go \<^verbatim>\<open>map[string]string\<close> at a key: the zero value for a missing key.\<close>

definition mapGet :: "(string \<rightharpoonup> string) \<Rightarrow> string \<Rightarrow> string" where
  "mapGet m k = (case m k of None \<Rightarrow> '''' | Some v \<Rightarrow> v)"

text \<open>\<^verbatim>\<open>%d\<close> of a length or a count.\<close>

fun showNat :: "nat \<Rightarrow> string" where
  "showNat n =
     (if n < 10 then [''0123456789'' ! n]
      else showNat (n div 10) @ [''0123456789'' ! (n mod 10)])"

text \<open>
  Every request to a service is recorded, in order. A service's answer may depend on the
  requests made before it, so the same request may be answered differently later.
\<close>

datatype call =
    ListKeysCall "string option"
  | DescribeKeyCall string
  | ListResourceTagsCall string
  | ListSecretsCall "string option"

text \<open>What a run leaves behind: the requests made, both output streams, and the files.\<close>

record world =
  calls :: "call list"
  stdout :: string
  stderr :: string
  files :: "string \<rightharpoonup> string"

definition Println :: "string \<Rightarrow> world \<Rightarrow> world" where
  "Println s w = w\<lparr>stdout := stdout w @ s @ ''\<newline>''\<rparr>"

definition Eprint :: "string \<Rightarrow> world \<Rightarrow> world" where
  "Eprint s w = w\<lparr>stderr := stderr w @ s\<rparr>"


section \<open>The key lister (main.go)\<close>

subsection \<open>The KMS service\<close>

text \<open>
  The types of the AWS SDK that the code reads. Members that the SDK documents as always
  set on a successful answer (\<^verbatim>\<open>KeyId\<close>, \<^verbatim>\<open>KeyMetadata\<close>, \<^verbatim>\<open>TagKey\<close>, \<^verbatim>\<open>TagValue\<close>), and
  that the code dereferences without a check, are plain values; a member that the code
  tests against \<^verbatim>\<open>nil\<close> is an option.
\<close>

record KeyListEntry =
  KeyId :: string

record ListKeysOutput =
  Keys :: "KeyListEntry list"
  Truncated :: bool
  NextMarker :: "string option"

record KeyMetadata =
  KeyManager :: string
  KeyState :: string
  KeySpec :: string
  CreationDate :: "time option"

record Tag =
  TagKey :: string
  TagValue :: string

text \<open>
  Modelled from the spec: the SDK constants \<^verbatim>\<open>types.KeyStateEnabled\<close> and
  \<^verbatim>\<open>types.KeyManagerTypeCustomer\<close> are not under src/. The spec names the fully active
  state \<^verbatim>\<open>"Enabled"\<close>, which is also the literal \<^verbatim>\<open>main\<close> compares the status with; the
  customer-managed class is the SDK's \<^verbatim>\<open>"CUSTOMER"\<close>.
\<close>

definition KeyStateEnabled :: string where
  "KeyStateEnabled = ''Enabled''"

definition KeyManagerTypeCustomer :: string where
  "KeyManagerTypeCustomer = ''CUSTOMER''"

text \<open>The service: each answer is a function of the requests made so far and the request.\<close>

record kms_client =
  ListKeys :: "call list \<Rightarrow> string option \<Rightarrow> goerror + ListKeysOutput"
  DescribeKey :: "call list \<Rightarrow> string \<Rightarrow> goerror + KeyMetadata"
  ListResourceTags :: "call list \<Rightarrow> string \<Rightarrow> goerror + Tag list"

definition client_ListKeys ::
  "kms_client \<Rightarrow> string option \<Rightarrow> world \<Rightarrow> (goerror + ListKeysOutput) \<times> world" where
  "client_ListKeys client marker w =
     (ListKeys client (calls w) marker, w\<lparr>calls := calls w @ [ListKeysCall marker]\<rparr>)"

definition client_DescribeKey ::
  "kms_client \<Rightarrow> string \<Rightarrow> world \<Rightarrow> (goerror + KeyMetadata) \<times> world" where
  "client_DescribeKey client keyID w =
     (DescribeKey client (calls w) keyID, w\<lparr>calls := calls w @ [DescribeKeyCall keyID]\<rparr>)"

definition client_ListResourceTags ::
  "kms_client \<Rightarrow> string \<Rightarrow> world \<Rightarrow> (goerror + Tag list) \<times> world" where
  "client_ListResourceTags client keyID w =
     (ListResourceTags client (calls w) keyID,
      w\<lparr>calls := calls w @ [ListResourceTagsCall keyID]\<rparr>)"

subsection \<open>getKeyInfo\<close>

record KeyInfo =
  KeyID :: string
  Status :: string
  CreationDate :: time
  KeyType :: string
  Tags :: "string \<rightharpoonup> string"

text \<open>The loop \<^verbatim>\<open>for _, tag := range tagsOutput.Tags { info.Tags[*tag.TagKey] = *tag.TagValue }\<close>.\<close>

definition setTags :: "Tag list \<Rightarrow> KeyInfo \<Rightarrow> KeyInfo" where
  "setTags tags info =
     fold (\<lambda>tag i. i\<lparr>KeyInfo.Tags := (KeyInfo.Tags i)(TagKey tag \<mapsto> TagValue tag)\<rparr>) tags info"

definition getKeyInfo :: "kms_client \<Rightarrow> string \<Rightarrow> world \<Rightarrow> KeyInfo \<times> world" where
  "getKeyInfo client keyID w =
     (let info = \<lparr>KeyID = keyID, Status = '''', CreationDate = zeroTime, KeyType = '''',
                  Tags = Map.empty\<rparr>;
          (describeOutput, w1) = client_DescribeKey client keyID w
      in case describeOutput of
           Inl err \<Rightarrow>
             if strings_Contains (errorText err) ''AccessDenied''
                \<or> strings_Contains (errorText err) ''not authorized''
             then (info\<lparr>Status := ''Not Authorized''\<rparr>, w1)
             else (info\<lparr>Status := ''Error: '' @ errorText err\<rparr>, w1)
         | Inr md \<Rightarrow>
             let info = info\<lparr>Status := KeyState md\<rparr>;
                 info = (case KeyMetadata.CreationDate md of
                           None \<Rightarrow> info
                         | Some d \<Rightarrow> info\<lparr>KeyInfo.CreationDate := d\<rparr>);
                 info = info\<lparr>KeyType := KeySpec md\<rparr>
             in if KeyState md = KeyStateEnabled
                then (let (tagsOutput, w2) = client_ListResourceTags client keyID w1
                      in case tagsOutput of
                           Inl err \<Rightarrow> (info, w2)
                         | Inr tags \<Rightarrow> (setTags tags info, w2))
                else (info, w1))"

subsection \<open>listAllKeys\<close>

text \<open>
  The inner loop of \<^verbatim>\<open>listAllKeys\<close> over the keys of one page: one \<^verbatim>\<open>DescribeKey\<close> request
  for each key; the key is appended when the request fails or when the key is customer
  managed.
\<close>

fun listAllKeys_page ::
  "kms_client \<Rightarrow> KeyListEntry list \<Rightarrow> KeyListEntry list \<Rightarrow> world
     \<Rightarrow> KeyListEntry list \<times> world" where
  "listAllKeys_page client [] allKeys w = (allKeys, w)"
| "listAllKeys_page client (key # keys) allKeys w =
     (case client_DescribeKey client (KeyId key) w of
        (Inl err, w1) \<Rightarrow> listAllKeys_page client keys (allKeys @ [key]) w1
      | (Inr describeOutput, w1) \<Rightarrow>
          if KeyManager describeOutput = KeyManagerTypeCustomer
          then listAllKeys_page client keys (allKeys @ [key]) w1
          else listAllKeys_page client keys allKeys w1)"

text \<open>
  The outer loop runs until a page is not truncated, which the service decides: the
  first argument bounds the number of pages fetched, and \<^const>\<open>None\<close> says that the loop
  has not returned within the bound.
\<close>

fun listAllKeys_loop ::
  "nat \<Rightarrow> kms_client \<Rightarrow> string option \<Rightarrow> KeyListEntry list \<Rightarrow> world
     \<Rightarrow> ((goerror + KeyListEntry list) \<times> world) option" where
  "listAllKeys_loop 0 client marker allKeys w = None"
| "listAllKeys_loop (Suc n) client marker allKeys w =
     (case client_ListKeys client marker w of
        (Inl err, w1) \<Rightarrow> Some (Inl err, w1)
      | (Inr output, w1) \<Rightarrow>
          (case listAllKeys_page client (Keys output) allKeys w1 of
             (allKeys', w2) \<Rightarrow>
               if \<not> Truncated output then Some (Inr allKeys', w2)
               else listAllKeys_loop n client (NextMarker output) allKeys' w2))"

definition listAllKeys ::
  "nat \<Rightarrow> kms_client \<Rightarrow> world \<Rightarrow> ((goerror + KeyListEntry list) \<times> world) option" where
  "listAllKeys fuel client w = listAllKeys_loop fuel client None [] w"

subsection \<open>The loop of main over the keys\<close>

record collected =
  enabledKeys :: "KeyInfo list"
  notAuthorizedKeys :: "KeyInfo list"
  allTagKeys :: "string set"

definition collected_init :: collected where
  "collected_init = \<lparr>enabledKeys = [], notAuthorizedKeys = [], allTagKeys = {}\<rparr>"

text \<open>
  The body of the loop after \<^verbatim>\<open>getKeyInfo\<close>. \<^verbatim>\<open>allTagKeys\<close> is a \<^verbatim>\<open>map[string]bool\<close> used
  as a set; adding the keys of \<^verbatim>\<open>keyInfo.Tags\<close> one by one is their union, whatever the
  order of the \<^verbatim>\<open>range\<close>.
\<close>

definition classify :: "KeyInfo \<Rightarrow> collected \<Rightarrow> collected" where
  "classify keyInfo c =
     (if Status keyInfo = ''Not Authorized''
      then c\<lparr>notAuthorizedKeys := notAuthorizedKeys c @ [keyInfo]\<rparr>
      else if Status keyInfo = ''Enabled''
      then c\<lparr>enabledKeys := enabledKeys c @ [keyInfo],
             allTagKeys := allTagKeys c \<union> dom (KeyInfo.Tags keyInfo)\<rparr>
      else c)"

fun collectKeys ::
  "kms_client \<Rightarrow> KeyListEntry list \<Rightarrow> collected \<Rightarrow> world \<Rightarrow> collected \<times> world" where
  "collectKeys client [] c w = (c, w)"
| "collectKeys client (key # keys) c w =
     (case getKeyInfo client (KeyId key) w of
        (keyInfo, w1) \<Rightarrow> collectKeys client keys (classify keyInfo c) w1)"

text \<open>
  The records that \<^verbatim>\<open>getKeyInfo\<close> returns in that loop, in order. The code does not keep
  this list; it is here to state what the loop does with each of them.
\<close>

fun keyInfos :: "kms_client \<Rightarrow> KeyListEntry list \<Rightarrow> world \<Rightarrow> KeyInfo list" where
  "keyInfos client [] w = []"
| "keyInfos client (key # keys) w =
     (case getKeyInfo client (KeyId key) w of
        (keyInfo, w1) \<Rightarrow> keyInfo # keyInfos client keys w1)"

text \<open>
  \<^verbatim>\<open>sort.Strings\<close>. The slice it sorts is filled by a \<^verbatim>\<open>range\<close> over \<^verbatim>\<open>allTagKeys\<close>, in an
  order the Go runtime chooses: any list \<open>ks\<close> of the keys without repetition.
\<close>

definition sort_Strings :: "string list \<Rightarrow> string list" where
  "sort_Strings ks = sort ks"

subsection \<open>The tables\<close>

text \<open>
  Library functions that are not under src/, taken as parameters: the number of runes
  of a string, by which \<^verbatim>\<open>fmt\<close> pads, and \<^verbatim>\<open>Time.Format\<close> with the layout of the table.
\<close>

record golib =
  RuneCountInString :: "string \<Rightarrow> nat"
  Format :: "time \<Rightarrow> string"

text \<open>\<^verbatim>\<open>%-*s\<close>: the value in full, then spaces up to the width, counted in runes.\<close>

definition padRight :: "golib \<Rightarrow> nat \<Rightarrow> string \<Rightarrow> string" where
  "padRight lib width v = v @ replicate (width - RuneCountInString lib v) CHR '' ''"

text \<open>
  \<^verbatim>\<open>printRow\<close> reads \<^verbatim>\<open>widths[i]\<close> for every index of \<^verbatim>\<open>values\<close>: with fewer widths than
  values the program panics, which is \<^const>\<open>None\<close>.
\<close>

fun printRow :: "golib \<Rightarrow> string list \<Rightarrow> nat list \<Rightarrow> string option" where
  "printRow lib [] widths = Some ''|\<newline>''"
| "printRow lib (v # values) [] = None"
| "printRow lib (v # values) (width # widths) =
     (case printRow lib values widths of
        None \<Rightarrow> None
      | Some rest \<Rightarrow> Some (''| '' @ padRight lib width v @ '' '' @ rest))"

definition printSeparator :: "nat list \<Rightarrow> string" where
  "printSeparator widths =
     concat (map (\<lambda>w. ''+-'' @ replicate w CHR ''-'' @ ''-'') widths) @ ''+\<newline>''"

fun printRows :: "golib \<Rightarrow> string list list \<Rightarrow> nat list \<Rightarrow> string option" where
  "printRows lib [] widths = Some []"
| "printRows lib (row # rows) widths =
     (case printRow lib row widths of
        None \<Rightarrow> None
      | Some line \<Rightarrow>
          (case printRows lib rows widths of
             None \<Rightarrow> None
           | Some rest \<Rightarrow> Some (line @ rest)))"

text \<open>\<^verbatim>\<open>if n > widths[i] { widths[i] = n }\<close>, at an index of \<^verbatim>\<open>widths\<close>.\<close>

definition widen :: "nat \<Rightarrow> nat \<Rightarrow> nat list \<Rightarrow> nat list" where
  "widen i n widths = (if n > widths ! i then widths[i := n] else widths)"

definition enabledHeaders :: "string list \<Rightarrow> string list" where
  "enabledHeaders tagKeys = [''Key ID'', ''Status'', ''Creation Date'', ''Key Type''] @ tagKeys"

text \<open>The widths after one key: the four fixed columns, then the loop over the tag keys.\<close>

definition keyWidths :: "golib \<Rightarrow> string list \<Rightarrow> KeyInfo \<Rightarrow> nat list \<Rightarrow> nat list" where
  "keyWidths lib tagKeys key widths =
     (let widths = widen 0 (length (KeyID key)) widths;
          widths = widen 1 (length (Status key)) widths;
          dateStr = Format lib (KeyInfo.CreationDate key);
          widths = widen 2 (length dateStr) widths;
          widths = widen 3 (length (KeyType key)) widths
      in fold (\<lambda>(i, tagKey) ws. widen (i + 4) (length (mapGet (KeyInfo.Tags key) tagKey)) ws)
           (enumerate 0 tagKeys) widths)"

definition enabledWidths :: "golib \<Rightarrow> KeyInfo list \<Rightarrow> string list \<Rightarrow> nat list" where
  "enabledWidths lib keys tagKeys =
     fold (keyWidths lib tagKeys) keys (map length (enabledHeaders tagKeys))"

definition enabledRow :: "golib \<Rightarrow> string list \<Rightarrow> KeyInfo \<Rightarrow> string list" where
  "enabledRow lib tagKeys key =
     [KeyID key, Status key, Format lib (KeyInfo.CreationDate key), KeyType key]
     @ map (\<lambda>tagKey. let tagValue = mapGet (KeyInfo.Tags key) tagKey
                      in if tagValue = '''' then ''-'' else tagValue) tagKeys"

definition printEnabledKeysTable :: "golib \<Rightarrow> KeyInfo list \<Rightarrow> string list \<Rightarrow> string option" where
  "printEnabledKeysTable lib keys tagKeys =
     (let headers = enabledHeaders tagKeys;
          widths = enabledWidths lib keys tagKeys
      in case printRow lib headers widths of
           None \<Rightarrow> None
         | Some head \<Rightarrow>
             (case printRows lib (map (enabledRow lib tagKeys) keys) widths of
                None \<Rightarrow> None
              | Some body \<Rightarrow> Some (head @ printSeparator widths @ body)))"

definition notAuthorizedWidths :: "KeyInfo list \<Rightarrow> nat list" where
  "notAuthorizedWidths keys =
     fold (\<lambda>key widths. widen 1 (length (Status key)) (widen 0 (length (KeyID key)) widths))
       keys [length ''Key ID'', length ''Status'']"

definition printNotAuthorizedKeysTable :: "golib \<Rightarrow> KeyInfo list \<Rightarrow> string option" where
  "printNotAuthorizedKeysTable lib keys =
     (let headers = [''Key ID'', ''Status''];
          widths = notAuthorizedWidths keys
      in case printRow lib headers widths of
           None \<Rightarrow> None
         | Some head \<Rightarrow>
             (case printRows lib (map (\<lambda>key. [KeyID key, Status key]) keys) widths of
                None \<Rightarrow> None
              | Some body \<Rightarrow> Some (head @ printSeparator widths @ body)))"

subsection \<open>main of the key lister\<close>

text \<open>
  How a run ends: \<^verbatim>\<open>os.Exit\<close> with a status (or the return of \<^verbatim>\<open>main\<close>, status 0) in a final
  world, or a runtime panic.
\<close>

datatype outcome = Exit nat world | Panic

definition Print :: "string \<Rightarrow> world \<Rightarrow> world" where
  "Print s w = w\<lparr>stdout := stdout w @ s\<rparr>"

definition printEnabledSection :: "golib \<Rightarrow> collected \<Rightarrow> string list \<Rightarrow> world \<Rightarrow> world option" where
  "printEnabledSection lib c sortedTagKeys w =
     (if length (enabledKeys c) > 0
      then (case printEnabledKeysTable lib (enabledKeys c) sortedTagKeys of
              None \<Rightarrow> None
            | Some table \<Rightarrow> Some (Print table (Println '''' (Println ''=== ENABLED KEYS ==='' w))))
      else Some w)"

definition printNotAuthorizedSection :: "golib \<Rightarrow> collected \<Rightarrow> world \<Rightarrow> world option" where
  "printNotAuthorizedSection lib c w =
     (if length (notAuthorizedKeys c) > 0
      then (case printNotAuthorizedKeysTable lib (notAuthorizedKeys c) of
              None \<Rightarrow> None
            | Some table \<Rightarrow>
                Some (Print table
                  (Println '''' (Println ''=== NOT AUTHORIZED KEYS ==='' (Println '''' w)))))
      else Some w)"

definition printSummary :: "nat \<Rightarrow> collected \<Rightarrow> world \<Rightarrow> world" where
  "printSummary n c w =
     Print (''  Not Authorized: '' @ showNat (length (notAuthorizedKeys c)) @ ''\<newline>'')
       (Print (''  Enabled: '' @ showNat (length (enabledKeys c)) @ ''\<newline>'')
         (Print (''Total Customer Managed Keys: '' @ showNat n @ ''\<newline>'')
           (Println '''' w)))"

text \<open>
  \<^verbatim>\<open>main\<close>. Its parameters are what the environment decides: the library functions, the
  order \<open>rangeKeys\<close> in which the runtime enumerates \<^verbatim>\<open>allTagKeys\<close>, the bound on the pages,
  the error of \<^verbatim>\<open>config.LoadDefaultConfig\<close> if it fails, and the service.
\<close>

definition main_keys ::
  "golib \<Rightarrow> (string set \<Rightarrow> string list) \<Rightarrow> nat \<Rightarrow> goerror option \<Rightarrow> kms_client \<Rightarrow> world
     \<Rightarrow> outcome option" where
  "main_keys lib rangeKeys fuel cfgErr client w =
     (case cfgErr of
        Some err \<Rightarrow>
          Some (Exit 1 (Eprint (''Error loading AWS config: '' @ errorText err @ ''\<newline>'') w))
      | None \<Rightarrow>
          (case listAllKeys fuel client w of
             None \<Rightarrow> None
           | Some (Inl err, w1) \<Rightarrow>
               Some (Exit 1 (Eprint (''Error listing keys: '' @ errorText err @ ''\<newline>'') w1))
           | Some (Inr keys, w1) \<Rightarrow>
               (case collectKeys client keys collected_init w1 of
                  (c, w2) \<Rightarrow>
                    let sortedTagKeys = sort_Strings (rangeKeys (allTagKeys c))
                    in (case printEnabledSection lib c sortedTagKeys w2 of
                          None \<Rightarrow> Some Panic
                        | Some w3 \<Rightarrow>
                            (case printNotAuthorizedSection lib c w3 of
                               None \<Rightarrow> Some Panic
                             | Some w4 \<Rightarrow> Some (Exit 0 (printSummary (length keys) c w4)))))))"


section \<open>The secrets exporter (secpq.go)\<close>

subsection \<open>The Secrets Manager service\<close>

text \<open>
  The SDK's \<^verbatim>\<open>types.Tag\<close> and \<^verbatim>\<open>types.SecretListEntry\<close>: every member is a pointer that the
  code tests or passes to \<^verbatim>\<open>aws.ToString\<close>.
\<close>

record SecretTag =
  Key :: "string option"
  Value :: "string option"

record SecretListEntry =
  Name :: "string option"
  Description :: "string option"
  CreatedDate :: "time option"
  LastAccessedDate :: "time option"
  Tags :: "SecretTag list"

record ListSecretsOutput =
  SecretList :: "SecretListEntry list"
  NextToken :: "string option"

record sm_client =
  ListSecrets :: "call list \<Rightarrow> string option \<Rightarrow> goerror + ListSecretsOutput"

definition client_ListSecrets ::
  "sm_client \<Rightarrow> string option \<Rightarrow> world \<Rightarrow> (goerror + ListSecretsOutput) \<times> world" where
  "client_ListSecrets client token w =
     (ListSecrets client (calls w) token, w\<lparr>calls := calls w @ [ListSecretsCall token]\<rparr>)"

definition aws_ToString :: "string option \<Rightarrow> string" where
  "aws_ToString p = (case p of None \<Rightarrow> '''' | Some s \<Rightarrow> s)"

text \<open>
  Modelled from the spec: the SDK's \<^verbatim>\<open>ListSecretsPaginator\<close> is not under src/. The spec's
  Paginator starts with an absent continuation token, sends the token of the last answer
  with the next request, and has more pages while the service says so; for this
  paginator that is the first page, and afterwards a non-empty token in the last answer.
  A failed request leaves the paginator as it was.
\<close>

record paginator =
  firstPage :: bool
  nextToken :: "string option"

definition NewListSecretsPaginator :: paginator where
  "NewListSecretsPaginator = \<lparr>firstPage = True, nextToken = None\<rparr>"

definition HasMorePages :: "paginator \<Rightarrow> bool" where
  "HasMorePages p =
     (firstPage p \<or> (case nextToken p of None \<Rightarrow> False | Some t \<Rightarrow> length t \<noteq> 0))"

definition NextPage ::
  "sm_client \<Rightarrow> paginator \<Rightarrow> world \<Rightarrow> (goerror + ListSecretsOutput) \<times> paginator \<times> world" where
  "NextPage client p w =
     (if \<not> HasMorePages p
      then (Inl \<lparr>errorText = ''no more pages available'', errorCode = None\<rparr>, p, w)
      else (case client_ListSecrets client (nextToken p) w of
              (Inl err, w1) \<Rightarrow> (Inl err, p, w1)
            | (Inr result, w1) \<Rightarrow>
                (Inr result, p\<lparr>firstPage := False, nextToken := NextToken result\<rparr>, w1)))"

subsection \<open>The records\<close>

text \<open>
  The two copies of the exporter differ in the creation date: the first keeps the
  \<^verbatim>\<open>time.Time\<close> (a millisecond timestamp in the file), the second stores days since the
  epoch. One model serves both, with the copy as a parameter.
\<close>

datatype variant = ParquetGo | Xitongsys

datatype created = Timestamp time | Date "32 word"

record SecretRecord =
  Name :: string
  Description :: "string option"
  CreatedDate :: "created option"
  LastAccessedDate :: "32 word option"
  Tags :: "(string \<rightharpoonup> string) option"

text \<open>
  \<^verbatim>\<open>int32(t.Unix() / 86400)\<close>: the division of two \<^verbatim>\<open>int64\<close> truncates towards zero and
  its quotient is again an \<^verbatim>\<open>int64\<close>; the conversion to \<^verbatim>\<open>int32\<close> keeps the low 32 bits.
\<close>

definition unixDays :: "time \<Rightarrow> 32 word" where
  "unixDays t = word_of_int (sint (Unix t) sdiv 86400)"

text \<open>The body of the loop over \<^verbatim>\<open>page.SecretList\<close>.\<close>

definition secretRecord :: "variant \<Rightarrow> SecretListEntry \<Rightarrow> SecretRecord" where
  "secretRecord variant secret =
     (let record = \<lparr>SecretRecord.Name = aws_ToString (SecretListEntry.Name secret),
                    SecretRecord.Description = None,
                    SecretRecord.CreatedDate = None,
                    SecretRecord.LastAccessedDate = None,
                    SecretRecord.Tags = None\<rparr>;
          record =
            (if SecretListEntry.Description secret \<noteq> None
                \<and> SecretListEntry.Description secret \<noteq> Some ''''
             then record\<lparr>SecretRecord.Description := SecretListEntry.Description secret\<rparr>
             else record);
          record =
            (case SecretListEntry.CreatedDate secret of
               None \<Rightarrow> record
             | Some t \<Rightarrow>
                 record\<lparr>SecretRecord.CreatedDate :=
                   Some (case variant of
                           ParquetGo \<Rightarrow> Timestamp t
                         | Xitongsys \<Rightarrow> Date (unixDays t))\<rparr>);
          record =
            (case SecretListEntry.LastAccessedDate secret of
               None \<Rightarrow> record
             | Some t \<Rightarrow> record\<lparr>SecretRecord.LastAccessedDate := Some (unixDays t)\<rparr>)
      in if length (SecretListEntry.Tags secret) > 0
         then record\<lparr>SecretRecord.Tags :=
                Some (fold (\<lambda>tag m. m(aws_ToString (Key tag) \<mapsto> aws_ToString (Value tag)))
                        (SecretListEntry.Tags secret) Map.empty)\<rparr>
         else record)"

subsection \<open>listSecrets\<close>

definition isNotAuthorizedError :: "goerror \<Rightarrow> bool" where
  "isNotAuthorizedError err =
     (case errorCode err of
        Some code \<Rightarrow>
          code = ''AccessDeniedException'' \<or> code = ''UnauthorizedOperation''
          \<or> code = ''UnauthorizedException'' \<or> strings_Contains code ''NotAuthorized''
      | None \<Rightarrow> False)"

text \<open>
  The loop \<^verbatim>\<open>for paginator.HasMorePages()\<close>, with a bound on the pages fetched as for
  \<^const>\<open>listAllKeys_loop\<close>. The records gathered so far are \<open>secrets\<close>.
\<close>

fun listSecrets_loop ::
  "nat \<Rightarrow> variant \<Rightarrow> sm_client \<Rightarrow> paginator \<Rightarrow> SecretRecord list \<Rightarrow> world
     \<Rightarrow> ((goerror + SecretRecord list) \<times> world) option" where
  "listSecrets_loop 0 variant client p secrets w =
     (if HasMorePages p then None else Some (Inr secrets, w))"
| "listSecrets_loop (Suc n) variant client p secrets w =
     (if HasMorePages p
      then (case NextPage client p w of
              (Inl err, p1, w1) \<Rightarrow>
                if isNotAuthorizedError err
                then Some (Inr secrets,
                       Eprint ''Warning: Not authorized to list secrets, skipping...\<newline>'' w1)
                else Some (Inl (Errorf_w ''failed to list secrets: '' err), w1)
            | (Inr page, p1, w1) \<Rightarrow>
                listSecrets_loop n variant client p1
                  (secrets @ map (secretRecord variant) (SecretList page)) w1)
      else Some (Inr secrets, w))"

definition listSecrets ::
  "nat \<Rightarrow> variant \<Rightarrow> sm_client \<Rightarrow> world \<Rightarrow> ((goerror + SecretRecord list) \<times> world) option" where
  "listSecrets fuel variant client w =
     listSecrets_loop fuel variant client NewListSecretsPaginator [] w"

subsection \<open>writeParquet\<close>

text \<open>
  The Parquet libraries and the file system are not under src/. What the code sees of
  them is taken as a parameter: whether creating the file fails, whether the writer
  can be made (second copy only), and for each write and for the final close the error,
  if any, and the bytes that reach the file.
\<close>

record pqlib =
  CreateFile :: "string \<Rightarrow> goerror option"
  NewParquetWriter :: "goerror option"
  WriteRecords :: "SecretRecord list \<Rightarrow> goerror option \<times> string"
  WriteRecord :: "SecretRecord \<Rightarrow> goerror option \<times> string"
  CloseWriter :: "SecretRecord list \<Rightarrow> goerror option \<times> string"

definition truncateFile :: "string \<Rightarrow> world \<Rightarrow> world" where
  "truncateFile filename w = w\<lparr>files := (files w)(filename \<mapsto> '''')\<rparr>"

definition appendFile :: "string \<Rightarrow> string \<Rightarrow> world \<Rightarrow> world" where
  "appendFile filename bytes w =
     w\<lparr>files := (files w)(filename \<mapsto> (case files w filename of None \<Rightarrow> '''' | Some old \<Rightarrow> old) @ bytes)\<rparr>"

text \<open>The first copy: \<^verbatim>\<open>os.Create\<close>, one \<^verbatim>\<open>writer.Write\<close> of all records, \<^verbatim>\<open>writer.Close\<close>.\<close>

definition writeParquet ::
  "pqlib \<Rightarrow> string \<Rightarrow> SecretRecord list \<Rightarrow> world \<Rightarrow> goerror option \<times> world" where
  "writeParquet lib filename secrets w =
     (case CreateFile lib filename of
        Some err \<Rightarrow> (Some (Errorf_w ''failed to create file: '' err), w)
      | None \<Rightarrow>
          (let w1 = truncateFile filename w
           in case WriteRecords lib secrets of
                (Some err, bytes) \<Rightarrow>
                  (Some (Errorf_w ''failed to write records: '' err), appendFile filename bytes w1)
              | (None, bytes) \<Rightarrow>
                  (let w2 = appendFile filename bytes w1
                   in case CloseWriter lib secrets of
                        (Some err, bytes') \<Rightarrow>
                          (Some (Errorf_w ''failed to close writer: '' err),
                           appendFile filename bytes' w2)
                      | (None, bytes') \<Rightarrow> (None, appendFile filename bytes' w2))))"

text \<open>The second copy writes the records one by one and stops at the first failure.\<close>

fun writeEach ::
  "pqlib \<Rightarrow> string \<Rightarrow> SecretRecord list \<Rightarrow> world \<Rightarrow> goerror option \<times> world" where
  "writeEach lib filename [] w = (None, w)"
| "writeEach lib filename (record # secrets) w =
     (case WriteRecord lib record of
        (Some err, bytes) \<Rightarrow>
          (Some (Errorf_w ''failed to write record: '' err), appendFile filename bytes w)
      | (None, bytes) \<Rightarrow> writeEach lib filename secrets (appendFile filename bytes w))"

definition writeParquet2 ::
  "pqlib \<Rightarrow> string \<Rightarrow> SecretRecord list \<Rightarrow> world \<Rightarrow> goerror option \<times> world" where
  "writeParquet2 lib filename secrets w =
     (case CreateFile lib filename of
        Some err \<Rightarrow> (Some (Errorf_w ''failed to create file: '' err), w)
      | None \<Rightarrow>
          (let w1 = truncateFile filename w
           in case NewParquetWriter lib of
                Some err \<Rightarrow> (Some (Errorf_w ''failed to create parquet writer: '' err), w1)
              | None \<Rightarrow>
                  (case writeEach lib filename secrets w1 of
                     (Some err, w2) \<Rightarrow> (Some err, w2)
                   | (None, w2) \<Rightarrow>
                       (case CloseWriter lib secrets of
                          (Some err, bytes) \<Rightarrow>
                            (Some (Errorf_w ''failed to finalize parquet: '' err),
                             appendFile filename bytes w2)
                        | (None, bytes) \<Rightarrow> (None, appendFile filename bytes w2)))))"

subsection \<open>main of the exporter\<close>

text \<open>
  \<^verbatim>\<open>main\<close>, the same in both copies. \<open>output\<close> is the value of the \<^verbatim>\<open>-output\<close> flag; the
  \<^verbatim>\<open>-profile\<close> and \<^verbatim>\<open>-region\<close> flags only reach \<^verbatim>\<open>loadAWSConfig\<close>, whose error, if any, is
  \<open>cfgErr\<close>.
\<close>

definition main_secrets ::
  "variant \<Rightarrow> pqlib \<Rightarrow> nat \<Rightarrow> goerror option \<Rightarrow> sm_client \<Rightarrow> string \<Rightarrow> world
     \<Rightarrow> outcome option" where
  "main_secrets variant lib fuel cfgErr client output w =
     (case cfgErr of
        Some err \<Rightarrow>
          Some (Exit 1 (Eprint (''Error loading AWS config: '' @ errorText err @ ''\<newline>'') w))
      | None \<Rightarrow>
          (case listSecrets fuel variant client w of
             None \<Rightarrow> None
           | Some (Inl err, w1) \<Rightarrow>
               Some (Exit 1 (Eprint (''Error listing secrets: '' @ errorText err @ ''\<newline>'') w1))
           | Some (Inr secrets, w1) \<Rightarrow>
               if length secrets = 0
               then Some (Exit 0 (Eprint ''No secrets found\<newline>'' w1))
               else (case (case variant of
                             ParquetGo \<Rightarrow> writeParquet lib output secrets w1
                           | Xitongsys \<Rightarrow> writeParquet2 lib output secrets w1) of
                       (Some err, w2) \<Rightarrow>
                         Some (Exit 1
                           (Eprint (''Error writing parquet: '' @ errorText err @ ''\<newline>'') w2))
                     | (None, w2) \<Rightarrow>
                         Some (Exit 0
                           (Eprint (''Wrote '' @ showNat (length secrets) @ '' secrets to ''
                                    @ output @ ''\<newline>'') w2)))))"


section \<open>Notions used in the statements\<close>

text \<open>The requests that the inner loop of \<^verbatim>\<open>listAllKeys\<close> makes for the keys of a page.\<close>

definition describeCalls :: "KeyListEntry list \<Rightarrow> call list" where
  "describeCalls keys = map (\<lambda>key. DescribeKeyCall (KeyId key)) keys"

text \<open>
  Whether the key at index \<open>i\<close> of a page is to be kept: the answer to its lookup, made
  after the lookups of the keys before it, is a failure or names a customer managed key.
\<close>

definition keptAt :: "kms_client \<Rightarrow> world \<Rightarrow> KeyListEntry list \<Rightarrow> nat \<Rightarrow> bool" where
  "keptAt client w keys i =
     (case DescribeKey client (calls w @ describeCalls (take i keys)) (KeyId (keys ! i)) of
        Inl err \<Rightarrow> True
      | Inr describeOutput \<Rightarrow> KeyManager describeOutput = KeyManagerTypeCustomer)"


text \<open>A printed line: every value in full, padded with spaces, between the bars.\<close>

definition renderedLine :: "golib \<Rightarrow> nat list \<Rightarrow> string list \<Rightarrow> string" where
  "renderedLine lib widths values =
     concat (map (\<lambda>(v, w). ''| '' @ v @ replicate (w - RuneCountInString lib v) CHR '' '' @ '' '')
               (zip values widths)) @ ''|\<newline>''"


text \<open>
  The timestamp that corresponds exactly to day \<open>d\<close> since the epoch, midnight UTC: what
  reading an exported date back gives.
\<close>

definition dayStart :: "32 word \<Rightarrow> time" where
  "dayStart d = \<lparr>Unix = word_of_int (86400 * sint d), Nanosecond = 0\<rparr>"


text \<open>
  A listing of keys over several pages. \<open>fetched client w marker outs\<close> says that the
  service, asked from world \<open>w\<close> on with \<open>marker\<close>, answers the successive \<^verbatim>\<open>ListKeys\<close>
  requests of \<^verbatim>\<open>listAllKeys\<close> with the pages \<open>outs\<close>, each of them truncated, so that a
  further request follows each. Between two such requests lie the lookups of the keys of
  the page.
\<close>

definition afterPage :: "world \<Rightarrow> string option \<Rightarrow> ListKeysOutput \<Rightarrow> world" where
  "afterPage w marker out =
     w\<lparr>calls := calls w @ ListKeysCall marker # describeCalls (Keys out)\<rparr>"

fun fetched :: "kms_client \<Rightarrow> world \<Rightarrow> string option \<Rightarrow> ListKeysOutput list \<Rightarrow> bool" where
  "fetched client w marker [] = True"
| "fetched client w marker (out # outs) =
     (ListKeys client (calls w) marker = Inr out \<and> Truncated out
      \<and> fetched client (afterPage w marker out) (NextMarker out) outs)"

text \<open>The world and the marker after those pages.\<close>

fun afterPages :: "world \<Rightarrow> string option \<Rightarrow> ListKeysOutput list \<Rightarrow> world" where
  "afterPages w marker [] = w"
| "afterPages w marker (out # outs) = afterPages (afterPage w marker out) (NextMarker out) outs"

fun markerAfter :: "string option \<Rightarrow> ListKeysOutput list \<Rightarrow> string option" where
  "markerAfter marker [] = marker"
| "markerAfter marker (out # outs) = markerAfter (NextMarker out) outs"

text \<open>
  The keys of a page that are to be kept, by \<^const>\<open>keptAt\<close> in the world after the page's
  \<^verbatim>\<open>ListKeys\<close> request, and those of several pages, page after page.
\<close>

definition keptOfPage ::
  "kms_client \<Rightarrow> world \<Rightarrow> string option \<Rightarrow> ListKeysOutput \<Rightarrow> KeyListEntry list" where
  "keptOfPage client w marker out =
     map ((!) (Keys out))
       (filter (keptAt client (w\<lparr>calls := calls w @ [ListKeysCall marker]\<rparr>) (Keys out))
          [0..<length (Keys out)])"

fun keptOfPages ::
  "kms_client \<Rightarrow> world \<Rightarrow> string option \<Rightarrow> ListKeysOutput list \<Rightarrow> KeyListEntry list" where
  "keptOfPages client w marker [] = []"
| "keptOfPages client w marker (out # outs) =
     keptOfPage client w marker out
     @ keptOfPages client (afterPage w marker out) (NextMarker out) outs"

text \<open>
  A listing of secrets over several pages. \<open>answered client log token outs\<close> says that
  the service, after the requests \<open>log\<close>, answers the successive \<^verbatim>\<open>ListSecrets\<close> requests of
  the paginator, the first with \<open>token\<close>, with the pages \<open>outs\<close>, each carrying a token that
  is not empty, so that a further request follows each.
\<close>

fun answered ::
  "sm_client \<Rightarrow> call list \<Rightarrow> string option \<Rightarrow> ListSecretsOutput list \<Rightarrow> bool" where
  "answered client log token [] = True"
| "answered client log token (out # outs) =
     (ListSecrets client log token = Inr out
      \<and> (case NextToken out of None \<Rightarrow> False | Some t \<Rightarrow> t \<noteq> '''')
      \<and> answered client (log @ [ListSecretsCall token]) (NextToken out) outs)"

text \<open>The requests made and the token held after those pages.\<close>

fun callsAfter :: "call list \<Rightarrow> string option \<Rightarrow> ListSecretsOutput list \<Rightarrow> call list" where
  "callsAfter log token [] = log"
| "callsAfter log token (out # outs) =
     callsAfter (log @ [ListSecretsCall token]) (NextToken out) outs"

fun tokenAfter :: "string option \<Rightarrow> ListSecretsOutput list \<Rightarrow> string option" where
  "tokenAfter token [] = token"
| "tokenAfter token (out # outs) = tokenAfter (NextToken out) outs"

text \<open>The records of the secrets of those pages, in order.\<close>

definition recordsOf :: "variant \<Rightarrow> ListSecretsOutput list \<Rightarrow> SecretRecord list" where
  "recordsOf variant outs =
     concat (map (\<lambda>out. map (secretRecord variant) (SecretList out)) outs)"


text \<open>
  The report of \<^verbatim>\<open>main\<close> for given tag columns: the table of the enabled keys with those
  columns if there is an enabled key, the table of the not authorized keys if there is
  one, and the summary.
\<close>

definition enabledTable :: "golib \<Rightarrow> KeyInfo list \<Rightarrow> string list \<Rightarrow> string" where
  "enabledTable lib keys tagKeys =
     renderedLine lib (enabledWidths lib keys tagKeys) (enabledHeaders tagKeys)
     @ printSeparator (enabledWidths lib keys tagKeys)
     @ concat (map (\<lambda>key. renderedLine lib (enabledWidths lib keys tagKeys)
                            (enabledRow lib tagKeys key)) keys)"

definition notAuthorizedTable :: "golib \<Rightarrow> KeyInfo list \<Rightarrow> string" where
  "notAuthorizedTable lib keys =
     renderedLine lib (notAuthorizedWidths keys) [''Key ID'', ''Status'']
     @ printSeparator (notAuthorizedWidths keys)
     @ concat (map (\<lambda>key. renderedLine lib (notAuthorizedWidths keys)
                            [KeyID key, Status key]) keys)"

definition report :: "golib \<Rightarrow> nat \<Rightarrow> collected \<Rightarrow> string list \<Rightarrow> world \<Rightarrow> world" where
  "report lib n c tagKeys w =
     (let w3 = (if enabledKeys c \<noteq> []
                then Print (enabledTable lib (enabledKeys c) tagKeys)
                       (Println '''' (Println ''=== ENABLED KEYS ==='' w))
                else w);
          w4 = (if notAuthorizedKeys c \<noteq> []
                then Print (notAuthorizedTable lib (notAuthorizedKeys c))
                       (Println '''' (Println ''=== NOT AUTHORIZED KEYS ==='' (Println '''' w3)))
                else w3)
      in printSummary n c w4)"


section \<open>Concrete runs\<close>

text \<open>Small services and inputs at which the properties below are evaluated.\<close>

definition world0 :: world where
  "world0 = \<lparr>calls = [], stdout = '''', stderr = '''', files = Map.empty\<rparr>"

definition err_denied :: goerror where
  "err_denied =
     \<lparr>errorText = ''api error AccessDeniedException: not allowed'',
      errorCode = Some ''AccessDeniedException''\<rparr>"

definition err_timeout :: goerror where
  "err_timeout = \<lparr>errorText = ''request timed out'', errorCode = None\<rparr>"

definition md_of :: "string \<Rightarrow> KeyMetadata" where
  "md_of state =
     \<lparr>KeyManager = ''CUSTOMER'', KeyState = state, KeySpec = ''SYMMETRIC_DEFAULT'',
      CreationDate = None\<rparr>"

text \<open>
  A service with five keys: \<open>A\<close> and \<open>B\<close> are enabled and tagged, \<open>C\<close> is denied, \<open>D\<close> is
  disabled, \<open>E\<close> is enabled and its tags cannot be read, \<open>F\<close> is managed by AWS; a key
  it does not know times out.
\<close>

definition kms_example :: kms_client where
  "kms_example =
     \<lparr>ListKeys = (\<lambda>log marker.
        Inr \<lparr>Keys = [\<lparr>KeyId = ''A''\<rparr>, \<lparr>KeyId = ''B''\<rparr>, \<lparr>KeyId = ''C''\<rparr>,
                     \<lparr>KeyId = ''D''\<rparr>, \<lparr>KeyId = ''F''\<rparr>],
             Truncated = False, NextMarker = None\<rparr>),
      DescribeKey = (\<lambda>log keyID.
        if keyID = ''A'' \<or> keyID = ''B'' \<or> keyID = ''E'' then Inr (md_of ''Enabled'')
        else if keyID = ''C'' then Inl err_denied
        else if keyID = ''D'' then Inr (md_of ''Disabled'')
        else if keyID = ''F'' then Inr ((md_of ''Enabled'')\<lparr>KeyManager := ''AWS''\<rparr>)
        else Inl err_timeout),
      ListResourceTags = (\<lambda>log keyID.
        if keyID = ''A'' then Inr [\<lparr>TagKey = ''Env'', TagValue = ''prod''\<rparr>]
        else if keyID = ''B'' then Inr [\<lparr>TagKey = ''Team'', TagValue = ''x''\<rparr>]
        else Inl err_timeout)\<rparr>"


text \<open>The records that \<^verbatim>\<open>getKeyInfo\<close> returns for the keys \<open>A\<close> and \<open>B\<close>, and a library.\<close>

definition info_A :: KeyInfo where
  "info_A = \<lparr>KeyID = ''A'', Status = ''Enabled'', CreationDate = zeroTime,
              KeyType = ''SYMMETRIC_DEFAULT'', Tags = [''Env'' \<mapsto> ''prod'']\<rparr>"

definition info_B :: KeyInfo where
  "info_B = \<lparr>KeyID = ''B'', Status = ''Enabled'', CreationDate = zeroTime,
              KeyType = ''SYMMETRIC_DEFAULT'', Tags = [''Team'' \<mapsto> ''x'']\<rparr>"

definition lib_example :: golib where
  "lib_example = \<lparr>RuneCountInString = length, Format = (\<lambda>t. ''0001-01-01 00:00:00'')\<rparr>"


text \<open>
  A secret without a description and the same with an empty description; the first
  second of day \<open>2 ^ 31\<close> after the epoch and a time on the first day of 2024.
\<close>

definition secret_absent :: SecretListEntry where
  "secret_absent =
     \<lparr>SecretListEntry.Name = Some ''db'', SecretListEntry.Description = None,
      SecretListEntry.CreatedDate = None, SecretListEntry.LastAccessedDate = None,
      SecretListEntry.Tags = []\<rparr>"

definition secret_empty :: SecretListEntry where
  "secret_empty = secret_absent\<lparr>SecretListEntry.Description := Some ''''\<rparr>"

definition time_far :: time where
  "time_far = \<lparr>Unix = 185542587187200, Nanosecond = 0\<rparr>"

definition time_2024 :: time where
  "time_2024 = \<lparr>Unix = 1704067205, Nanosecond = 0\<rparr>"

text \<open>
  Services: one without secrets, one that denies the first request, one that times out,
  and one that answers the first request with a page and a token and denies the second.
\<close>

definition sm_none :: sm_client where
  "sm_none = \<lparr>ListSecrets = (\<lambda>log token. Inr \<lparr>SecretList = [], NextToken = None\<rparr>)\<rparr>"

definition sm_denied :: sm_client where
  "sm_denied = \<lparr>ListSecrets = (\<lambda>log token. Inl err_denied)\<rparr>"

definition sm_timeout :: sm_client where
  "sm_timeout = \<lparr>ListSecrets = (\<lambda>log token. Inl err_timeout)\<rparr>"

definition sm_denied_later :: sm_client where
  "sm_denied_later =
     \<lparr>ListSecrets = (\<lambda>log token.
        if log = [] then Inr \<lparr>SecretList = [secret_absent], NextToken = Some ''t2''\<rparr>
        else Inl err_denied)\<rparr>"

definition kms_denied :: kms_client where
  "kms_denied = kms_example\<lparr>ListKeys := (\<lambda>log marker. Inl err_denied)\<rparr>"

text \<open>A Parquet library that never fails and writes a header, one byte a record, a footer.\<close>

definition pq_example :: pqlib where
  "pq_example =
     \<lparr>CreateFile = (\<lambda>filename. None),
      NewParquetWriter = None,
      WriteRecords = (\<lambda>secrets. (None, ''PAR1'' @ replicate (length secrets) CHR ''r'')),
      WriteRecord = (\<lambda>record. (None, ''r'')),
      CloseWriter = (\<lambda>secrets. (None, ''PAR1''))\<rparr>"


text \<open>
  The same keys on two pages: \<open>A\<close> and \<open>F\<close> on the first, which is truncated, \<open>C\<close> and \<open>D\<close>
  on the second.
\<close>

definition page_AF :: ListKeysOutput where
  "page_AF = \<lparr>Keys = [\<lparr>KeyId = ''A''\<rparr>, \<lparr>KeyId = ''F''\<rparr>], Truncated = True,
                NextMarker = Some ''m2''\<rparr>"

definition page_CD :: ListKeysOutput where
  "page_CD = \<lparr>Keys = [\<lparr>KeyId = ''C''\<rparr>, \<lparr>KeyId = ''D''\<rparr>], Truncated = False,
                NextMarker = None\<rparr>"

definition kms_two_pages :: kms_client where
  "kms_two_pages =
     kms_example\<lparr>ListKeys := (\<lambda>log marker. if marker = None then Inr page_AF else Inr page_CD)\<rparr>"

text \<open>The same, with a second request that fails.\<close>

definition kms_page_then_denied :: kms_client where
  "kms_page_then_denied =
     kms_example\<lparr>ListKeys := (\<lambda>log marker. if marker = None then Inr page_AF else Inl err_denied)\<rparr>"

text \<open>An enumeration of a set of strings that is not the sorted one.\<close>

definition range_rev :: "string set \<Rightarrow> string list" where
  "range_rev S = rev (sorted_list_of_set S)"



text \<open>
  A second secret, two pages that each carry a token, and a service that answers the
  first two requests with them and fails the third with a given error.
\<close>

definition secret_api :: SecretListEntry where
  "secret_api =
     \<lparr>SecretListEntry.Name = Some ''api'', SecretListEntry.Description = Some ''api key'',
      SecretListEntry.CreatedDate = None, SecretListEntry.LastAccessedDate = Some time_2024,
      SecretListEntry.Tags = []\<rparr>"

definition page_db :: ListSecretsOutput where
  "page_db = \<lparr>SecretList = [secret_absent], NextToken = Some ''t2''\<rparr>"

definition page_api :: ListSecretsOutput where
  "page_api = \<lparr>SecretList = [secret_api], NextToken = Some ''t3''\<rparr>"

definition sm_two_then :: "goerror \<Rightarrow> sm_client" where
  "sm_two_then err =
     \<lparr>ListSecrets = (\<lambda>log token.
        if token = None then Inr page_db
        else if token = Some ''t2'' then Inr page_api
        else Inl err)\<rparr>"


section \<open>Properties of the key lister\<close>

subsection \<open>getKeyInfo\<close>

lemma setTags_fields:
  "KeyID (setTags tags info) = KeyID info"
  "Status (setTags tags info) = Status info"
  "KeyInfo.CreationDate (setTags tags info) = KeyInfo.CreationDate info"
  "KeyType (setTags tags info) = KeyType info"
  unfolding setTags_def by (induction tags arbitrary: info; simp)+

lemma strings_Contains_simps:
  "strings_Contains s [] = True"
  "strings_Contains [] (c # cs) = False"
  "strings_Contains (x # xs) (c # cs) =
     (prefix (c # cs) (x # xs) \<or> strings_Contains xs (c # cs))"
  by (simp_all add: strings_Contains_def sublist_Cons_right)

text \<open>
  Claim C2. When the \<^verbatim>\<open>DescribeKey\<close> request fails, \<^verbatim>\<open>getKeyInfo\<close> returns a record and
  makes no further request. If the error matches the access-denied signature that
  \<^verbatim>\<open>getKeyInfo\<close> tests (its text contains \<^verbatim>\<open>AccessDenied\<close> or \<^verbatim>\<open>not authorized\<close>), the
  status is \<^verbatim>\<open>Not Authorized\<close> whatever the rest of the text is; otherwise the status is
  \<^verbatim>\<open>Error: \<close> followed by the text. In both cases the tags are empty and no other field
  is set.
\<close>

theorem getKeyInfo_describe_failure:
  "DescribeKey client (calls w) keyID = Inl err \<Longrightarrow>
   getKeyInfo client keyID w =
     (\<lparr>KeyID = keyID,
       Status = (if strings_Contains (errorText err) ''AccessDenied''
                    \<or> strings_Contains (errorText err) ''not authorized''
                 then ''Not Authorized'' else ''Error: '' @ errorText err),
       CreationDate = zeroTime, KeyType = '''', Tags = Map.empty\<rparr>,
      w\<lparr>calls := calls w @ [DescribeKeyCall keyID]\<rparr>)"
  by (simp add: getKeyInfo_def client_DescribeKey_def)

theorem getKeyInfo_describe_failure_witness:
  "DescribeKey kms_example (calls world0) ''C'' = Inl err_denied
   \<and> getKeyInfo kms_example ''C'' world0 =
       (\<lparr>KeyID = ''C'', Status = ''Not Authorized'', CreationDate = zeroTime, KeyType = '''',
         Tags = Map.empty\<rparr>,
        world0\<lparr>calls := [DescribeKeyCall ''C'']\<rparr>)
   \<and> DescribeKey kms_example (calls world0) ''Z'' = Inl err_timeout
   \<and> getKeyInfo kms_example ''Z'' world0 =
       (\<lparr>KeyID = ''Z'', Status = ''Error: request timed out'', CreationDate = zeroTime,
         KeyType = '''', Tags = Map.empty\<rparr>,
        world0\<lparr>calls := [DescribeKeyCall ''Z'']\<rparr>)"
  using getKeyInfo_describe_failure [of kms_example world0 "''C''" err_denied]
    getKeyInfo_describe_failure [of kms_example world0 "''Z''" err_timeout]
  by (simp add: kms_example_def world0_def err_denied_def err_timeout_def
      strings_Contains_simps)

text \<open>
  Claim C6. When \<^verbatim>\<open>DescribeKey\<close> succeeds with a state other than \<^verbatim>\<open>Enabled\<close>, the only
  request \<^verbatim>\<open>getKeyInfo\<close> makes is that \<^verbatim>\<open>DescribeKey\<close> (no \<^verbatim>\<open>ListResourceTags\<close>), and the
  record has empty tags. When the state is \<^verbatim>\<open>Enabled\<close> and the \<^verbatim>\<open>ListResourceTags\<close>
  request fails, the error is dropped: the record keeps the status \<^verbatim>\<open>Enabled\<close> and has
  empty tags.
\<close>

theorem getKeyInfo_tags_only_when_enabled:
  "DescribeKey client (calls w) keyID = Inr md \<Longrightarrow>
   (KeyState md \<noteq> KeyStateEnabled \<longrightarrow>
      getKeyInfo client keyID w =
        (\<lparr>KeyID = keyID, Status = KeyState md,
          CreationDate = (case KeyMetadata.CreationDate md of None \<Rightarrow> zeroTime | Some d \<Rightarrow> d),
          KeyType = KeySpec md, Tags = Map.empty\<rparr>,
         w\<lparr>calls := calls w @ [DescribeKeyCall keyID]\<rparr>))
   \<and> (KeyState md = KeyStateEnabled \<longrightarrow>
        (\<forall>err. ListResourceTags client (calls w @ [DescribeKeyCall keyID]) keyID = Inl err \<longrightarrow>
           getKeyInfo client keyID w =
             (\<lparr>KeyID = keyID, Status = KeyState md,
               CreationDate = (case KeyMetadata.CreationDate md of None \<Rightarrow> zeroTime | Some d \<Rightarrow> d),
               KeyType = KeySpec md, Tags = Map.empty\<rparr>,
              w\<lparr>calls := calls w @ [DescribeKeyCall keyID, ListResourceTagsCall keyID]\<rparr>)))"
  by (auto simp add: getKeyInfo_def client_DescribeKey_def client_ListResourceTags_def
      split: option.splits)

theorem getKeyInfo_tags_only_when_enabled_witness:
  "DescribeKey kms_example (calls world0) ''D'' = Inr (md_of ''Disabled'')
   \<and> KeyState (md_of ''Disabled'') \<noteq> KeyStateEnabled
   \<and> getKeyInfo kms_example ''D'' world0 =
       (\<lparr>KeyID = ''D'', Status = ''Disabled'', CreationDate = zeroTime,
         KeyType = ''SYMMETRIC_DEFAULT'', Tags = Map.empty\<rparr>,
        world0\<lparr>calls := [DescribeKeyCall ''D'']\<rparr>)
   \<and> DescribeKey kms_example (calls world0) ''E'' = Inr (md_of ''Enabled'')
   \<and> KeyState (md_of ''Enabled'') = KeyStateEnabled
   \<and> ListResourceTags kms_example (calls world0 @ [DescribeKeyCall ''E'']) ''E'' = Inl err_timeout
   \<and> getKeyInfo kms_example ''E'' world0 =
       (\<lparr>KeyID = ''E'', Status = ''Enabled'', CreationDate = zeroTime,
         KeyType = ''SYMMETRIC_DEFAULT'', Tags = Map.empty\<rparr>,
        world0\<lparr>calls := [DescribeKeyCall ''E'', ListResourceTagsCall ''E'']\<rparr>)"
  using getKeyInfo_tags_only_when_enabled [of kms_example world0 "''D''" "md_of ''Disabled''"]
    getKeyInfo_tags_only_when_enabled [of kms_example world0 "''E''" "md_of ''Enabled''"]
  by (simp add: kms_example_def world0_def md_of_def KeyStateEnabled_def)

lemma getKeyInfo_KeyID: "KeyID (fst (getKeyInfo client keyID w)) = keyID"
  by (simp add: getKeyInfo_def client_DescribeKey_def client_ListResourceTags_def
      setTags_fields Let_def split: sum.splits option.splits prod.splits)

text \<open>\<^verbatim>\<open>getKeyInfo\<close> at the keys of the example service.\<close>

lemma getKeyInfo_A:
  "getKeyInfo kms_example ''A'' w =
     (info_A, w\<lparr>calls := calls w @ [DescribeKeyCall ''A'', ListResourceTagsCall ''A'']\<rparr>)"
  by (simp add: getKeyInfo_def client_DescribeKey_def client_ListResourceTags_def
      kms_example_def md_of_def KeyStateEnabled_def setTags_def info_A_def)

lemma getKeyInfo_B:
  "getKeyInfo kms_example ''B'' w =
     (info_B, w\<lparr>calls := calls w @ [DescribeKeyCall ''B'', ListResourceTagsCall ''B'']\<rparr>)"
  by (simp add: getKeyInfo_def client_DescribeKey_def client_ListResourceTags_def
      kms_example_def md_of_def KeyStateEnabled_def setTags_def info_B_def)

lemma getKeyInfo_C:
  "getKeyInfo kms_example ''C'' w =
     (\<lparr>KeyID = ''C'', Status = ''Not Authorized'', CreationDate = zeroTime,
       KeyType = '''', Tags = Map.empty\<rparr>,
      w\<lparr>calls := calls w @ [DescribeKeyCall ''C'']\<rparr>)"
  by (simp add: getKeyInfo_def client_DescribeKey_def kms_example_def err_denied_def
      strings_Contains_simps)

lemma getKeyInfo_D:
  "getKeyInfo kms_example ''D'' w =
     (\<lparr>KeyID = ''D'', Status = ''Disabled'', CreationDate = zeroTime,
       KeyType = ''SYMMETRIC_DEFAULT'', Tags = Map.empty\<rparr>,
      w\<lparr>calls := calls w @ [DescribeKeyCall ''D'']\<rparr>)"
  by (simp add: getKeyInfo_def client_DescribeKey_def kms_example_def md_of_def
      KeyStateEnabled_def)

lemmas getKeyInfo_example = getKeyInfo_A getKeyInfo_B getKeyInfo_C getKeyInfo_D

subsection \<open>The loop of main over the keys\<close>

lemma collectKeys_keyInfos:
  "fst (collectKeys client keys c w) = fold classify (keyInfos client keys w) c"
  by (induction keys arbitrary: c w) (simp_all split: prod.splits)

lemma length_keyInfos: "length (keyInfos client keys w) = length keys"
  by (induction keys arbitrary: w) (simp_all split: prod.splits)

lemma KeyID_keyInfos: "map KeyID (keyInfos client keys w) = map KeyId keys"
proof (induction keys arbitrary: w)
  case Nil
  show ?case by simp
next
  case (Cons key keys)
  obtain info w1 where g: "getKeyInfo client (KeyId key) w = (info, w1)"
    by (cases "getKeyInfo client (KeyId key) w")
  have "KeyID info = KeyId key"
    using getKeyInfo_KeyID [of client "KeyId key" w] g by simp
  with Cons g show ?case by simp
qed

lemma fold_classify_enabled:
  "enabledKeys (fold classify infos c) =
     enabledKeys c @ filter (\<lambda>i. Status i = ''Enabled'') infos"
  by (induction infos arbitrary: c) (simp_all add: classify_def)

lemma fold_classify_notAuthorized:
  "notAuthorizedKeys (fold classify infos c) =
     notAuthorizedKeys c @ filter (\<lambda>i. Status i = ''Not Authorized'') infos"
  by (induction infos arbitrary: c) (simp_all add: classify_def)

lemma fold_classify_allTagKeys:
  "allTagKeys (fold classify infos c) =
     allTagKeys c
     \<union> (\<Union>i \<in> set (filter (\<lambda>i. Status i = ''Enabled'') infos). dom (KeyInfo.Tags i))"
  by (induction infos arbitrary: c) (auto simp add: classify_def)

lemma length_two_filters:
  "(\<And>x. \<not> (P x \<and> Q x)) \<Longrightarrow> length (filter P xs) + length (filter Q xs) \<le> length xs"
  by (induction xs) auto

text \<open>
  Claim C1, as amended. \<^verbatim>\<open>getKeyInfo\<close> returns exactly one record for each listed key, in
  order and with the key's identifier. The report does not show all of them: the first
  table holds the records whose status is \<^verbatim>\<open>Enabled\<close>, the second those whose status is
  \<^verbatim>\<open>Not Authorized\<close>, and a record with any other status (\<^verbatim>\<open>Disabled\<close>, \<^verbatim>\<open>PendingDeletion\<close>,
  \<^verbatim>\<open>Error: ...\<close>) is in neither. So the number of records in the tables is at most, and
  not always equal to, the number of keys listed.
\<close>

theorem collectKeys_partition:
  "length (keyInfos client keys w) = length keys
   \<and> map KeyID (keyInfos client keys w) = map KeyId keys
   \<and> enabledKeys (fst (collectKeys client keys collected_init w)) =
       filter (\<lambda>i. Status i = ''Enabled'') (keyInfos client keys w)
   \<and> notAuthorizedKeys (fst (collectKeys client keys collected_init w)) =
       filter (\<lambda>i. Status i = ''Not Authorized'') (keyInfos client keys w)
   \<and> length (enabledKeys (fst (collectKeys client keys collected_init w)))
       + length (notAuthorizedKeys (fst (collectKeys client keys collected_init w)))
       \<le> length keys"
proof -
  let ?infos = "keyInfos client keys w"
  have e: "enabledKeys (fst (collectKeys client keys collected_init w)) =
             filter (\<lambda>i. Status i = ''Enabled'') ?infos"
    by (simp add: collectKeys_keyInfos fold_classify_enabled collected_init_def)
  have n: "notAuthorizedKeys (fst (collectKeys client keys collected_init w)) =
             filter (\<lambda>i. Status i = ''Not Authorized'') ?infos"
    by (simp add: collectKeys_keyInfos fold_classify_notAuthorized collected_init_def)
  have "length (filter (\<lambda>i. Status i = ''Enabled'') ?infos)
          + length (filter (\<lambda>i. Status i = ''Not Authorized'') ?infos) \<le> length ?infos"
    by (rule length_two_filters) auto
  with e n show ?thesis
    by (simp add: length_keyInfos KeyID_keyInfos)
qed

theorem collectKeys_partition_witness:
  "length (keyInfos kms_example
     [\<lparr>KeyId = ''A''\<rparr>, \<lparr>KeyId = ''B''\<rparr>, \<lparr>KeyId = ''C''\<rparr>, \<lparr>KeyId = ''D''\<rparr>] world0) = 4
   \<and> enabledKeys (fst (collectKeys kms_example
       [\<lparr>KeyId = ''A''\<rparr>, \<lparr>KeyId = ''B''\<rparr>, \<lparr>KeyId = ''C''\<rparr>, \<lparr>KeyId = ''D''\<rparr>]
       collected_init world0)) = [info_A, info_B]
   \<and> filter (\<lambda>i. Status i = ''Not Authorized'')
       (keyInfos kms_example
          [\<lparr>KeyId = ''A''\<rparr>, \<lparr>KeyId = ''B''\<rparr>, \<lparr>KeyId = ''C''\<rparr>, \<lparr>KeyId = ''D''\<rparr>] world0) =
       [\<lparr>KeyID = ''C'', Status = ''Not Authorized'', CreationDate = zeroTime,
         KeyType = '''', Tags = Map.empty\<rparr>]"
  using collectKeys_partition
    [of kms_example "[\<lparr>KeyId = ''A''\<rparr>, \<lparr>KeyId = ''B''\<rparr>, \<lparr>KeyId = ''C''\<rparr>, \<lparr>KeyId = ''D''\<rparr>]"
      world0]
  by (simp add: getKeyInfo_example classify_def collected_init_def info_A_def info_B_def)

text \<open>
  Claim C1 as stated fails: for the one listed key \<open>D\<close>, which is disabled, one record is
  produced and neither table holds it.
\<close>

theorem disabled_key_not_reported:
  "length (keyInfos kms_example [\<lparr>KeyId = ''D''\<rparr>] world0) = 1
   \<and> length (enabledKeys (fst (collectKeys kms_example [\<lparr>KeyId = ''D''\<rparr>] collected_init world0)))
       + length (notAuthorizedKeys
           (fst (collectKeys kms_example [\<lparr>KeyId = ''D''\<rparr>] collected_init world0)))
       \<noteq> length [\<lparr>KeyId = ''D''\<rparr>]"
  by (simp add: getKeyInfo_D classify_def collected_init_def)

text \<open>
  Sorting any enumeration of \<^verbatim>\<open>allTagKeys\<close> gives the sorted list of the union of the tag
  keys of the records whose status is \<^verbatim>\<open>Enabled\<close>.
\<close>

lemma sort_Strings_enumeration:
  assumes "distinct ks"
    and "set ks = allTagKeys (fst (collectKeys client keys collected_init w))"
  shows "sort_Strings ks =
           sorted_list_of_set
             (\<Union>i \<in> set (filter (\<lambda>i. Status i = ''Enabled'') (keyInfos client keys w)).
                dom (KeyInfo.Tags i))"
proof -
  have "set ks =
          (\<Union>i \<in> set (filter (\<lambda>i. Status i = ''Enabled'') (keyInfos client keys w)).
             dom (KeyInfo.Tags i))"
    using assms(2)
    by (simp add: collectKeys_keyInfos fold_classify_allTagKeys collected_init_def)
  moreover have "sort ks = sorted_list_of_set (set ks)"
    using assms(1) by (simp add: sorted_list_of_set_sort_remdups distinct_remdups_id)
  ultimately show ?thesis
    by (simp add: sort_Strings_def)
qed

subsection \<open>listAllKeys\<close>

lemma listAllKeys_page_append:
  "listAllKeys_page client (xs @ ys) allKeys w =
     (case listAllKeys_page client xs allKeys w of
        (allKeys', w') \<Rightarrow> listAllKeys_page client ys allKeys' w')"
  by (induction xs arbitrary: allKeys w) (simp_all split: prod.splits sum.splits)

lemma keptAt_append:
  "i < length keys \<Longrightarrow> keptAt client w (keys @ [key]) i = keptAt client w keys i"
  by (simp add: keptAt_def nth_append)

lemma filter_keptAt_append:
  "filter (keptAt client w (keys @ [key])) [0..<length keys] =
   filter (keptAt client w keys) [0..<length keys]"
  by (rule filter_cong) (simp_all add: keptAt_append)

lemma map_nth_append_upt:
  "set is \<subseteq> {0..<length keys} \<Longrightarrow> map ((!) (keys @ [key])) is = map ((!) keys) is"
  by (induction "is") (simp_all add: nth_append)

text \<open>
  Over the keys of a page, the inner loop makes exactly one \<^verbatim>\<open>DescribeKey\<close> request for each
  key, in order, and appends exactly the keys whose lookup failed or answered with a
  customer managed key, in order.
\<close>

lemma listAllKeys_page_result:
  "listAllKeys_page client keys allKeys w =
     (allKeys @ map ((!) keys) (filter (keptAt client w keys) [0..<length keys]),
      w\<lparr>calls := calls w @ describeCalls keys\<rparr>)"
proof (induction keys rule: rev_induct)
  case Nil
  show ?case by (simp add: describeCalls_def)
next
  case (snoc key keys)
  let ?w' = "w\<lparr>calls := calls w @ describeCalls keys\<rparr>"
  have m: "map ((!) (keys @ [key])) (filter (keptAt client w keys) [0..<length keys]) =
           map ((!) keys) (filter (keptAt client w keys) [0..<length keys])"
    by (rule map_nth_append_upt) auto
  have k: "keptAt client w (keys @ [key]) (length keys) =
             (case DescribeKey client (calls ?w') (KeyId key) of
                Inl err \<Rightarrow> True
              | Inr describeOutput \<Rightarrow> KeyManager describeOutput = KeyManagerTypeCustomer)"
    by (simp add: keptAt_def)
  show ?case
    using snoc m k
    by (simp add: listAllKeys_page_append filter_keptAt_append client_DescribeKey_def
        describeCalls_def split: sum.splits)
qed

text \<open>Truncated pages are fetched one after the other, and their kept keys gathered.\<close>

lemma listAllKeys_loop_fetched:
  "fetched client w marker outs \<Longrightarrow>
   listAllKeys_loop (length outs + n) client marker allKeys w =
     listAllKeys_loop n client (markerAfter marker outs)
       (allKeys @ keptOfPages client w marker outs) (afterPages w marker outs)"
proof (induction outs arbitrary: w marker allKeys)
  case Nil
  show ?case by simp
next
  case (Cons out outs)
  from Cons.prems have a: "ListKeys client (calls w) marker = Inr out" and t: "Truncated out"
    and f: "fetched client (afterPage w marker out) (NextMarker out) outs"
    by simp_all
  have p: "listAllKeys_page client (Keys out) allKeys (w\<lparr>calls := calls w @ [ListKeysCall marker]\<rparr>) =
             (allKeys @ keptOfPage client w marker out, afterPage w marker out)"
    by (simp add: listAllKeys_page_result keptOfPage_def afterPage_def)
  show ?case
    using Cons.IH [OF f, of "allKeys @ keptOfPage client w marker out"] a t p
    by (simp add: client_ListKeys_def)
qed

text \<open>
  Claim C9. When the service answers the listing with truncated pages and then a page
  that is not truncated, \<^verbatim>\<open>listAllKeys\<close> returns, for any bound above the number of pages: it
  has made one \<^verbatim>\<open>ListKeys\<close> request for each page and, after it, one \<^verbatim>\<open>DescribeKey\<close> request
  for each key of the page, in order; and its result holds, page after page and in the
  order of the pages, exactly the keys whose lookup failed or answered with a customer
  managed key.
\<close>

theorem listAllKeys_result:
  assumes "fetched client w None outs"
    and "ListKeys client (calls (afterPages w None outs)) (markerAfter None outs) = Inr out"
    and "\<not> Truncated out"
  shows "listAllKeys (length outs + Suc n) client w =
           Some (Inr (keptOfPages client w None outs
                      @ keptOfPage client (afterPages w None outs) (markerAfter None outs) out),
                 afterPage (afterPages w None outs) (markerAfter None outs) out)"
proof -
  let ?w = "afterPages w None outs" and ?m = "markerAfter None outs"
  have p: "listAllKeys_page client (Keys out) (keptOfPages client w None outs)
             (?w\<lparr>calls := calls ?w @ [ListKeysCall ?m]\<rparr>) =
           (keptOfPages client w None outs @ keptOfPage client ?w ?m out, afterPage ?w ?m out)"
    by (simp add: listAllKeys_page_result keptOfPage_def afterPage_def)
  show ?thesis
    unfolding listAllKeys_def listAllKeys_loop_fetched [OF assms(1)]
    using assms(2,3) p by (simp add: client_ListKeys_def)
qed

lemma keptOfPage_AF:
  "keptOfPage kms_two_pages w None page_AF = [\<lparr>KeyId = ''A''\<rparr>]"
  by (simp add: keptOfPage_def keptAt_def page_AF_def kms_two_pages_def kms_example_def
      md_of_def KeyManagerTypeCustomer_def)

lemma keptOfPage_CD:
  "keptOfPage kms_two_pages w marker page_CD = [\<lparr>KeyId = ''C''\<rparr>, \<lparr>KeyId = ''D''\<rparr>]"
  by (simp add: keptOfPage_def keptAt_def page_CD_def kms_two_pages_def kms_example_def
      md_of_def KeyManagerTypeCustomer_def)

text \<open>
  Two pages: of \<open>A\<close> and \<open>F\<close> the first keeps \<open>A\<close>, since \<open>F\<close> is managed by AWS; the second
  keeps \<open>C\<close>, whose lookup is denied, and \<open>D\<close>.
\<close>

theorem listAllKeys_result_witness:
  "fetched kms_two_pages world0 None [page_AF]
   \<and> ListKeys kms_two_pages (calls (afterPages world0 None [page_AF]))
        (markerAfter None [page_AF]) = Inr page_CD
   \<and> \<not> Truncated page_CD
   \<and> listAllKeys 2 kms_two_pages world0 =
       Some (Inr [\<lparr>KeyId = ''A''\<rparr>, \<lparr>KeyId = ''C''\<rparr>, \<lparr>KeyId = ''D''\<rparr>],
             world0\<lparr>calls := [ListKeysCall None, DescribeKeyCall ''A'', DescribeKeyCall ''F'',
                                ListKeysCall (Some ''m2''), DescribeKeyCall ''C'',
                                DescribeKeyCall ''D'']\<rparr>)"
proof -
  have a: "fetched kms_two_pages world0 None [page_AF]"
    by (simp add: kms_two_pages_def page_AF_def)
  have b: "ListKeys kms_two_pages (calls (afterPages world0 None [page_AF]))
        (markerAfter None [page_AF]) = Inr page_CD"
    by (simp add: kms_two_pages_def page_AF_def)
  have c: "\<not> Truncated page_CD" by (simp add: page_CD_def)
  have e: "2 = length [page_AF] + Suc 0" by simp
  have r: "listAllKeys 2 kms_two_pages world0 =
       Some (Inr [\<lparr>KeyId = ''A''\<rparr>, \<lparr>KeyId = ''C''\<rparr>, \<lparr>KeyId = ''D''\<rparr>],
             world0\<lparr>calls := [ListKeysCall None, DescribeKeyCall ''A'', DescribeKeyCall ''F'',
                                ListKeysCall (Some ''m2''), DescribeKeyCall ''C'',
                                DescribeKeyCall ''D'']\<rparr>)"
    unfolding e listAllKeys_result [OF a b c] keptOfPages.simps keptOfPage_AF keptOfPage_CD
    by (simp add: afterPage_def describeCalls_def page_AF_def page_CD_def world0_def)
  show ?thesis
    using a b c r by simp
qed

text \<open>When a request for a page fails, no key is returned.\<close>

lemma listAllKeys_fetched_failure:
  assumes "fetched client w None outs"
    and "ListKeys client (calls (afterPages w None outs)) (markerAfter None outs) = Inl err"
  shows "listAllKeys (length outs + Suc n) client w =
           Some (Inl err,
                 (afterPages w None outs)
                   \<lparr>calls := calls (afterPages w None outs) @ [ListKeysCall (markerAfter None outs)]\<rparr>)"
  unfolding listAllKeys_def listAllKeys_loop_fetched [OF assms(1)]
  using assms(2) by (simp add: client_ListKeys_def)


subsection \<open>The tables\<close>

lemma length_widen: "length (widen i n ws) = length ws"
  by (simp add: widen_def)


lemma length_tag_fold:
  "length (fold (\<lambda>(i, tagKey) ws. widen (i + 4) (g tagKey) ws) (enumerate n ks) ws) = length ws"
  by (induction ks arbitrary: n ws) (simp_all add: length_widen)


lemma length_enabledHeaders: "length (enabledHeaders tagKeys) = 4 + length tagKeys"
  by (simp add: enabledHeaders_def)

lemma length_enabledRow: "length (enabledRow lib tagKeys key) = 4 + length tagKeys"
  by (simp add: enabledRow_def)




lemma length_keyWidths: "length (keyWidths lib tagKeys key ws) = length ws"
  by (simp add: keyWidths_def Let_def length_tag_fold length_widen)




lemma length_fold_keyWidths: "length (fold (keyWidths lib tagKeys) keys ws) = length ws"
  by (induction keys arbitrary: ws) (simp_all add: length_keyWidths)

lemma length_enabledWidths: "length (enabledWidths lib keys tagKeys) = 4 + length tagKeys"
  by (simp add: enabledWidths_def length_fold_keyWidths enabledHeaders_def)





text \<open>With at least as many widths as values, \<^verbatim>\<open>printRow\<close> does not panic.\<close>

lemma printRow_rendered:
  "length vs \<le> length widths \<Longrightarrow>
   printRow lib vs widths = Some (renderedLine lib widths vs)"
proof (induction lib vs widths rule: printRow.induct)
  case (1 lib widths)
  show ?case by (simp add: renderedLine_def)
next
  case (2 lib v vs)
  then show ?case by simp
next
  case (3 lib v vs width widths)
  then show ?case by (simp add: renderedLine_def padRight_def)
qed

lemma printRows_rendered:
  "(\<And>row. row \<in> set rows \<Longrightarrow> length row \<le> length widths) \<Longrightarrow>
   printRows lib rows widths = Some (concat (map (renderedLine lib widths) rows))"
  by (induction rows) (simp_all add: printRow_rendered)

lemma printEnabledKeysTable_rendered:
  "printEnabledKeysTable lib keys tagKeys =
     Some (renderedLine lib (enabledWidths lib keys tagKeys) (enabledHeaders tagKeys)
           @ printSeparator (enabledWidths lib keys tagKeys)
           @ concat (map (\<lambda>key. renderedLine lib (enabledWidths lib keys tagKeys)
                                  (enabledRow lib tagKeys key)) keys))"
proof -
  have h: "printRow lib (enabledHeaders tagKeys) (enabledWidths lib keys tagKeys) =
             Some (renderedLine lib (enabledWidths lib keys tagKeys) (enabledHeaders tagKeys))"
    by (rule printRow_rendered) (simp add: length_enabledHeaders length_enabledWidths)
  have r: "printRows lib (map (enabledRow lib tagKeys) keys) (enabledWidths lib keys tagKeys) =
             Some (concat (map (renderedLine lib (enabledWidths lib keys tagKeys))
                             (map (enabledRow lib tagKeys) keys)))"
    by (rule printRows_rendered) (auto simp add: length_enabledRow length_enabledWidths)
  show ?thesis
    by (simp add: printEnabledKeysTable_def Let_def h r comp_def)
qed


text \<open>The table of the records of \<open>A\<close> and \<open>B\<close>.\<close>

lemma enabledWidths_example:
  "enabledWidths lib_example [info_A, info_B] [''Env'', ''Team''] = [6, 7, 19, 17, 4, 4]"
  by (simp add: enabledWidths_def keyWidths_def enabledHeaders_def widen_def lib_example_def
      info_A_def info_B_def mapGet_def Let_def)

lemma printEnabledKeysTable_example:
  "printEnabledKeysTable lib_example [info_A, info_B] [''Env'', ''Team''] =
     Some ''| Key ID | Status  | Creation Date       | Key Type          | Env  | Team |\<newline>+--------+---------+---------------------+-------------------+------+------+\<newline>| A      | Enabled | 0001-01-01 00:00:00 | SYMMETRIC_DEFAULT | prod | -    |\<newline>| B      | Enabled | 0001-01-01 00:00:00 | SYMMETRIC_DEFAULT | -    | x    |\<newline>''"
  unfolding printEnabledKeysTable_def Let_def enabledWidths_example
  by (simp add: enabledHeaders_def enabledRow_def padRight_def printSeparator_def
      lib_example_def info_A_def info_B_def mapGet_def Let_def eval_nat_numeral)







subsection \<open>main of the key lister\<close>

lemma length_notAuthorizedWidths: "length (notAuthorizedWidths keys) = 2"
proof -
  have "length (fold (\<lambda>key widths. widen 1 (length (Status key))
                        (widen 0 (length (KeyID key)) widths)) keys ws) = length ws" for ws
    by (induction keys arbitrary: ws) (simp_all add: length_widen)
  then show ?thesis by (simp add: notAuthorizedWidths_def)
qed

lemma printNotAuthorizedKeysTable_rendered:
  "printNotAuthorizedKeysTable lib keys =
     Some (renderedLine lib (notAuthorizedWidths keys) [''Key ID'', ''Status'']
           @ printSeparator (notAuthorizedWidths keys)
           @ concat (map (\<lambda>key. renderedLine lib (notAuthorizedWidths keys)
                                  [KeyID key, Status key]) keys))"
proof -
  have h: "printRow lib [''Key ID'', ''Status''] (notAuthorizedWidths keys) =
             Some (renderedLine lib (notAuthorizedWidths keys) [''Key ID'', ''Status''])"
    by (rule printRow_rendered) (simp add: length_notAuthorizedWidths)
  have r: "printRows lib (map (\<lambda>key. [KeyID key, Status key]) keys) (notAuthorizedWidths keys) =
             Some (concat (map (renderedLine lib (notAuthorizedWidths keys))
                             (map (\<lambda>key. [KeyID key, Status key]) keys)))"
    by (rule printRows_rendered) (auto simp add: length_notAuthorizedWidths)
  show ?thesis
    by (simp add: printNotAuthorizedKeysTable_def Let_def h r comp_def)
qed

text \<open>The tables are always printed: \<^verbatim>\<open>main\<close> does not panic.\<close>

lemma main_keys_no_panic: "main_keys lib rangeKeys fuel cfgErr client w \<noteq> Some Panic"
  by (simp add: main_keys_def printEnabledSection_def printNotAuthorizedSection_def
      printEnabledKeysTable_rendered printNotAuthorizedKeysTable_rendered Let_def
      split: option.splits sum.splits prod.splits)

text \<open>A bound on the pages is enough as soon as the service stops truncating.\<close>

lemma listAllKeys_loop_fuel:
  "listAllKeys_loop n client marker allKeys w = Some r \<Longrightarrow>
   listAllKeys_loop (n + k) client marker allKeys w = Some r"
proof (induction n arbitrary: marker allKeys w)
  case 0
  then show ?case by simp
next
  case (Suc n)
  show ?case
  proof (cases "client_ListKeys client marker w")
    case (Pair res w1)
    show ?thesis
    proof (cases res)
      case (Inl err)
      with Suc.prems Pair show ?thesis by simp
    next
      case (Inr out)
      obtain ks w2 where pg: "listAllKeys_page client (Keys out) allKeys w1 = (ks, w2)"
        by (cases "listAllKeys_page client (Keys out) allKeys w1")
      show ?thesis
      proof (cases "Truncated out")
        case False
        with Suc.prems Pair Inr pg show ?thesis by simp
      next
        case True
        with Suc.prems Pair Inr pg
        have "listAllKeys_loop n client (NextMarker out) ks w2 = Some r" by simp
        from Suc.IH [OF this] Pair Inr pg True show ?thesis by simp
      qed
    qed
  qed
qed

lemma listAllKeys_example:
  "listAllKeys 1 kms_example world0 =
     Some (Inr [\<lparr>KeyId = ''A''\<rparr>, \<lparr>KeyId = ''B''\<rparr>, \<lparr>KeyId = ''C''\<rparr>, \<lparr>KeyId = ''D''\<rparr>],
           world0\<lparr>calls := [ListKeysCall None, DescribeKeyCall ''A'', DescribeKeyCall ''B'',
                              DescribeKeyCall ''C'', DescribeKeyCall ''D'', DescribeKeyCall ''F'']\<rparr>)"
  by (simp add: listAllKeys_def client_ListKeys_def client_DescribeKey_def kms_example_def
      md_of_def KeyManagerTypeCustomer_def world0_def)

lemma collectKeys_example:
  "collectKeys kms_example
     [\<lparr>KeyId = ''A''\<rparr>, \<lparr>KeyId = ''B''\<rparr>, \<lparr>KeyId = ''C''\<rparr>, \<lparr>KeyId = ''D''\<rparr>]
     collected_init w =
   (\<lparr>enabledKeys = [info_A, info_B],
     notAuthorizedKeys = [\<lparr>KeyID = ''C'', Status = ''Not Authorized'', CreationDate = zeroTime,
                           KeyType = '''', Tags = Map.empty\<rparr>],
     allTagKeys = {''Team'', ''Env''}\<rparr>,
    w\<lparr>calls := calls w @ [DescribeKeyCall ''A'', ListResourceTagsCall ''A'',
                            DescribeKeyCall ''B'', ListResourceTagsCall ''B'',
                            DescribeKeyCall ''C'', DescribeKeyCall ''D'']\<rparr>)"
  by (simp add: getKeyInfo_example classify_def collected_init_def info_A_def info_B_def)

lemma printNotAuthorizedKeysTable_example:
  "printNotAuthorizedKeysTable lib_example
     [\<lparr>KeyID = ''C'', Status = ''Not Authorized'', CreationDate = zeroTime,
       KeyType = '''', Tags = Map.empty\<rparr>] =
   Some ''| Key ID | Status         |\<newline>+--------+----------------+\<newline>| C      | Not Authorized |\<newline>''"
  by (simp add: printNotAuthorizedKeysTable_def notAuthorizedWidths_def widen_def
      padRight_def printSeparator_def lib_example_def Let_def eval_nat_numeral)

text \<open>
  A whole run at the example service: five keys are listed, four are kept, and the report
  shows three of them; the disabled key \<open>D\<close> is counted in the total only.
\<close>

lemma main_keys_example:
  "main_keys lib_example sorted_list_of_set 1 None kms_example world0 =
     Some (Exit 0
       \<lparr>calls = [ListKeysCall None, DescribeKeyCall ''A'', DescribeKeyCall ''B'',
                 DescribeKeyCall ''C'', DescribeKeyCall ''D'', DescribeKeyCall ''F'',
                 DescribeKeyCall ''A'', ListResourceTagsCall ''A'',
                 DescribeKeyCall ''B'', ListResourceTagsCall ''B'',
                 DescribeKeyCall ''C'', DescribeKeyCall ''D''],
        stdout = ''=== ENABLED KEYS ===\<newline>\<newline>| Key ID | Status  | Creation Date       | Key Type          | Env  | Team |\<newline>+--------+---------+---------------------+-------------------+------+------+\<newline>| A      | Enabled | 0001-01-01 00:00:00 | SYMMETRIC_DEFAULT | prod | -    |\<newline>| B      | Enabled | 0001-01-01 00:00:00 | SYMMETRIC_DEFAULT | -    | x    |\<newline>\<newline>=== NOT AUTHORIZED KEYS ===\<newline>\<newline>| Key ID | Status         |\<newline>+--------+----------------+\<newline>| C      | Not Authorized |\<newline>\<newline>Total Customer Managed Keys: 4\<newline>  Enabled: 2\<newline>  Not Authorized: 1\<newline>'',
        stderr = '''',
        files = Map.empty\<rparr>)"
  unfolding main_keys_def listAllKeys_example option.case sum.case prod.case
    collectKeys_example
  by (simp add: sort_Strings_def printEnabledSection_def
      printNotAuthorizedSection_def printEnabledKeysTable_example
      printNotAuthorizedKeysTable_example printSummary_def Print_def Println_def world0_def)


lemma printEnabledSection_report:
  "printEnabledSection lib c tagKeys w =
     Some (if enabledKeys c \<noteq> []
           then Print (enabledTable lib (enabledKeys c) tagKeys)
                  (Println '''' (Println ''=== ENABLED KEYS ==='' w))
           else w)"
  by (simp add: printEnabledSection_def printEnabledKeysTable_rendered enabledTable_def)

lemma printNotAuthorizedSection_report:
  "printNotAuthorizedSection lib c w =
     Some (if notAuthorizedKeys c \<noteq> []
           then Print (notAuthorizedTable lib (notAuthorizedKeys c))
                  (Println '''' (Println ''=== NOT AUTHORIZED KEYS ==='' (Println '''' w)))
           else w)"
  by (simp add: printNotAuthorizedSection_def printNotAuthorizedKeysTable_rendered
      notAuthorizedTable_def)

text \<open>
  Claim C5. Whatever the order in which the runtime enumerates \<^verbatim>\<open>allTagKeys\<close>, \<^verbatim>\<open>main\<close>
  prints its report with the tag columns that are the sorted list, without repetition,
  of the union of the tag keys of the records whose status is \<^verbatim>\<open>Enabled\<close>: the columns
  depend on the records only, so two runs over the same records print the same columns
  in the same order.
\<close>

theorem main_keys_columns:
  assumes "listAllKeys fuel client w = Some (Inr keys, w1)"
    and "collectKeys client keys collected_init w1 = (c, w2)"
    and "distinct (rangeKeys (allTagKeys c))"
    and "set (rangeKeys (allTagKeys c)) = allTagKeys c"
  shows "main_keys lib rangeKeys fuel None client w =
           Some (Exit 0
             (report lib (length keys) c
                (sorted_list_of_set
                   (\<Union>i \<in> set (filter (\<lambda>i. Status i = ''Enabled'') (keyInfos client keys w1)).
                      dom (KeyInfo.Tags i)))
                w2))"
proof -
  have "set (rangeKeys (allTagKeys c)) =
          allTagKeys (fst (collectKeys client keys collected_init w1))"
    using assms(2,4) by simp
  from sort_Strings_enumeration [OF assms(3) this]
  have s: "sort_Strings (rangeKeys (allTagKeys c)) =
        sorted_list_of_set
          (\<Union>i \<in> set (filter (\<lambda>i. Status i = ''Enabled'') (keyInfos client keys w1)).
             dom (KeyInfo.Tags i))" .
  show ?thesis
    using assms(1,2)
    by (simp add: main_keys_def s printEnabledSection_report printNotAuthorizedSection_report
        report_def Let_def)
qed

lemma main_keys_example_stdout:
  "report lib_example 4
     \<lparr>enabledKeys = [info_A, info_B],
      notAuthorizedKeys = [\<lparr>KeyID = ''C'', Status = ''Not Authorized'', CreationDate = zeroTime,
                            KeyType = '''', Tags = Map.empty\<rparr>],
      allTagKeys = {''Team'', ''Env''}\<rparr>
     [''Env'', ''Team''] w =
   w\<lparr>stdout := stdout w @ ''=== ENABLED KEYS ===\<newline>\<newline>| Key ID | Status  | Creation Date       | Key Type          | Env  | Team |\<newline>+--------+---------+---------------------+-------------------+------+------+\<newline>| A      | Enabled | 0001-01-01 00:00:00 | SYMMETRIC_DEFAULT | prod | -    |\<newline>| B      | Enabled | 0001-01-01 00:00:00 | SYMMETRIC_DEFAULT | -    | x    |\<newline>\<newline>=== NOT AUTHORIZED KEYS ===\<newline>\<newline>| Key ID | Status         |\<newline>+--------+----------------+\<newline>| C      | Not Authorized |\<newline>\<newline>Total Customer Managed Keys: 4\<newline>  Enabled: 2\<newline>  Not Authorized: 1\<newline>''\<rparr>"
proof -
  have e: "enabledTable lib_example [info_A, info_B] [''Env'', ''Team''] =
     ''| Key ID | Status  | Creation Date       | Key Type          | Env  | Team |\<newline>+--------+---------+---------------------+-------------------+------+------+\<newline>| A      | Enabled | 0001-01-01 00:00:00 | SYMMETRIC_DEFAULT | prod | -    |\<newline>| B      | Enabled | 0001-01-01 00:00:00 | SYMMETRIC_DEFAULT | -    | x    |\<newline>''"
    using printEnabledKeysTable_example
    by (simp add: printEnabledKeysTable_rendered enabledTable_def)
  have n: "notAuthorizedTable lib_example
     [\<lparr>KeyID = ''C'', Status = ''Not Authorized'', CreationDate = zeroTime,
       KeyType = '''', Tags = Map.empty\<rparr>] =
     ''| Key ID | Status         |\<newline>+--------+----------------+\<newline>| C      | Not Authorized |\<newline>''"
    using printNotAuthorizedKeysTable_example
    by (simp add: printNotAuthorizedKeysTable_rendered notAuthorizedTable_def)
  show ?thesis
    unfolding report_def Let_def
    by (simp add: e n printSummary_def Print_def Println_def)
qed

text \<open>
  The example of the claim: tags \<^verbatim>\<open>{"Env":"prod"}\<close> on \<open>A\<close> and \<^verbatim>\<open>{"Team":"x"}\<close> on \<open>B\<close>,
  enumerated as \<^verbatim>\<open>Team\<close>, \<^verbatim>\<open>Env\<close>; the columns printed are \<^verbatim>\<open>Env\<close>, \<^verbatim>\<open>Team\<close>.
\<close>

theorem main_keys_columns_witness:
  "listAllKeys 1 kms_example world0 =
     Some (Inr [\<lparr>KeyId = ''A''\<rparr>, \<lparr>KeyId = ''B''\<rparr>, \<lparr>KeyId = ''C''\<rparr>, \<lparr>KeyId = ''D''\<rparr>],
           world0\<lparr>calls := [ListKeysCall None, DescribeKeyCall ''A'', DescribeKeyCall ''B'',
                              DescribeKeyCall ''C'', DescribeKeyCall ''D'', DescribeKeyCall ''F'']\<rparr>)
   \<and> range_rev {''Team'', ''Env''} = [''Team'', ''Env'']
   \<and> distinct (range_rev {''Team'', ''Env''})
   \<and> set (range_rev {''Team'', ''Env''}) = {''Team'', ''Env''}
   \<and> main_keys lib_example range_rev 1 None kms_example world0 =
       Some (Exit 0
         \<lparr>calls = [ListKeysCall None, DescribeKeyCall ''A'', DescribeKeyCall ''B'',
                   DescribeKeyCall ''C'', DescribeKeyCall ''D'', DescribeKeyCall ''F'',
                   DescribeKeyCall ''A'', ListResourceTagsCall ''A'',
                   DescribeKeyCall ''B'', ListResourceTagsCall ''B'',
                   DescribeKeyCall ''C'', DescribeKeyCall ''D''],
          stdout = ''=== ENABLED KEYS ===\<newline>\<newline>| Key ID | Status  | Creation Date       | Key Type          | Env  | Team |\<newline>+--------+---------+---------------------+-------------------+------+------+\<newline>| A      | Enabled | 0001-01-01 00:00:00 | SYMMETRIC_DEFAULT | prod | -    |\<newline>| B      | Enabled | 0001-01-01 00:00:00 | SYMMETRIC_DEFAULT | -    | x    |\<newline>\<newline>=== NOT AUTHORIZED KEYS ===\<newline>\<newline>| Key ID | Status         |\<newline>+--------+----------------+\<newline>| C      | Not Authorized |\<newline>\<newline>Total Customer Managed Keys: 4\<newline>  Enabled: 2\<newline>  Not Authorized: 1\<newline>'',
          stderr = '''',
          files = Map.empty\<rparr>)"
proof -
  let ?keys = "[\<lparr>KeyId = ''A''\<rparr>, \<lparr>KeyId = ''B''\<rparr>, \<lparr>KeyId = ''C''\<rparr>, \<lparr>KeyId = ''D''\<rparr>]"
  let ?w1 = "world0\<lparr>calls := [ListKeysCall None, DescribeKeyCall ''A'', DescribeKeyCall ''B'',
                              DescribeKeyCall ''C'', DescribeKeyCall ''D'', DescribeKeyCall ''F'']\<rparr>"
  let ?c = "\<lparr>enabledKeys = [info_A, info_B],
      notAuthorizedKeys = [\<lparr>KeyID = ''C'', Status = ''Not Authorized'', CreationDate = zeroTime,
                            KeyType = '''', Tags = Map.empty\<rparr>],
      allTagKeys = {''Team'', ''Env''}\<rparr>"
  let ?w2 = "?w1\<lparr>calls := calls ?w1 @ [DescribeKeyCall ''A'', ListResourceTagsCall ''A'',
                            DescribeKeyCall ''B'', ListResourceTagsCall ''B'',
                            DescribeKeyCall ''C'', DescribeKeyCall ''D'']\<rparr>"
  have l: "listAllKeys 1 kms_example world0 = Some (Inr ?keys, ?w1)"
    by (rule listAllKeys_example)
  have k: "collectKeys kms_example ?keys collected_init ?w1 = (?c, ?w2)"
    by (rule collectKeys_example)
  have r: "range_rev {''Team'', ''Env''} = [''Team'', ''Env'']"
    by (simp add: range_rev_def sorted_list_of_set_insert_remove)
  have d: "distinct (range_rev (allTagKeys ?c))" by (simp add: r)
  have s: "set (range_rev (allTagKeys ?c)) = allTagKeys ?c" by (simp add: r)
  have i: "keyInfos kms_example ?keys ?w1 =
             [info_A, info_B,
              \<lparr>KeyID = ''C'', Status = ''Not Authorized'', CreationDate = zeroTime,
                KeyType = '''', Tags = Map.empty\<rparr>,
              \<lparr>KeyID = ''D'', Status = ''Disabled'', CreationDate = zeroTime,
                KeyType = ''SYMMETRIC_DEFAULT'', Tags = Map.empty\<rparr>]"
    by (simp add: getKeyInfo_example)
  have u: "sorted_list_of_set
             (\<Union>i \<in> set (filter (\<lambda>i. Status i = ''Enabled'') (keyInfos kms_example ?keys ?w1)).
                dom (KeyInfo.Tags i)) = [''Env'', ''Team'']"
    unfolding i by (simp add: info_A_def info_B_def sorted_list_of_set_insert_remove)
  have len: "length ?keys = 4" by simp
  have m: "main_keys lib_example range_rev 1 None kms_example world0 =
             Some (Exit 0 (report lib_example 4 ?c [''Env'', ''Team''] ?w2))"
    using main_keys_columns [where rangeKeys = range_rev and lib = lib_example, OF l k d s]
    by (simp only: u len)
  have f: "Some (Exit 0 (report lib_example 4 ?c [''Env'', ''Team''] ?w2)) =
       Some (Exit 0
         \<lparr>calls = [ListKeysCall None, DescribeKeyCall ''A'', DescribeKeyCall ''B'',
                   DescribeKeyCall ''C'', DescribeKeyCall ''D'', DescribeKeyCall ''F'',
                   DescribeKeyCall ''A'', ListResourceTagsCall ''A'',
                   DescribeKeyCall ''B'', ListResourceTagsCall ''B'',
                   DescribeKeyCall ''C'', DescribeKeyCall ''D''],
          stdout = ''=== ENABLED KEYS ===\<newline>\<newline>| Key ID | Status  | Creation Date       | Key Type          | Env  | Team |\<newline>+--------+---------+---------------------+-------------------+------+------+\<newline>| A      | Enabled | 0001-01-01 00:00:00 | SYMMETRIC_DEFAULT | prod | -    |\<newline>| B      | Enabled | 0001-01-01 00:00:00 | SYMMETRIC_DEFAULT | -    | x    |\<newline>\<newline>=== NOT AUTHORIZED KEYS ===\<newline>\<newline>| Key ID | Status         |\<newline>+--------+----------------+\<newline>| C      | Not Authorized |\<newline>\<newline>Total Customer Managed Keys: 4\<newline>  Enabled: 2\<newline>  Not Authorized: 1\<newline>'',
          stderr = '''',
          files = Map.empty\<rparr>)"
    unfolding main_keys_example_stdout by (simp add: world0_def)
  show ?thesis
    using l r m f by simp
qed


section \<open>Properties of the secrets exporter\<close>

subsection \<open>The records\<close>

lemma sdiv_mult_cancel: "(86400 * k) sdiv 86400 = (k::int)"
  by (simp add: signed_divide_int_def abs_mult sgn_mult mult_sgn_abs)

lemma sint_dayStart: "sint (Unix (dayStart d)) = 86400 * sint d"
proof -
  have "- (2 ^ 31) \<le> sint d" "sint d < 2 ^ 31"
    using sint_ge [of d] sint_lt [of d] by simp_all
  then have b: "- (2 ^ 63) \<le> 86400 * sint d" "86400 * sint d < 2 ^ 63"
    by simp_all
  have "sint (word_of_int (86400 * sint d) :: 64 word) =
          signed_take_bit (LENGTH(64) - 1) (86400 * sint d)"
    by (rule sint_sbintrunc')
  also have "\<dots> = 86400 * sint d"
    using b by (simp add: signed_take_bit_int_eq_self)
  finally show ?thesis
    by (simp only: dayStart_def time.select_convs)
qed

lemma unixDays_dayStart: "unixDays (dayStart d) = d"
  by (simp add: unixDays_def sint_dayStart sdiv_mult_cancel)

lemma sint_unixDays:
  "- (2 ^ 31) \<le> sint (Unix t) sdiv 86400 \<Longrightarrow> sint (Unix t) sdiv 86400 < 2 ^ 31 \<Longrightarrow>
   sint (unixDays t) = sint (Unix t) sdiv 86400"
  by (simp add: unixDays_def sint_sbintrunc' signed_take_bit_int_eq_self)

lemma secretRecord_LastAccessedDate:
  "SecretRecord.LastAccessedDate (secretRecord variant secret) =
     map_option unixDays (SecretListEntry.LastAccessedDate secret)"
  by (simp add: secretRecord_def Let_def split: option.splits)

text \<open>
  Claim C4, as amended. The exported last-accessed date is \<^const>\<open>unixDays\<close> of the
  timestamp. When the quotient of the epoch seconds by 86400, truncated towards zero, fits
  the 32-bit date, the date is that quotient, which for a timestamp at or after the epoch
  is the number of whole days since the epoch. A timestamp that corresponds exactly to day
  \<open>d\<close> is exported as day \<open>d\<close>, so exporting an exported date again does not move it.
\<close>

theorem lastAccessed_days:
  "SecretRecord.LastAccessedDate (secretRecord variant secret) =
     map_option unixDays (SecretListEntry.LastAccessedDate secret)
   \<and> (- (2 ^ 31) \<le> sint (Unix t) sdiv 86400 \<and> sint (Unix t) sdiv 86400 < 2 ^ 31 \<longrightarrow>
        sint (unixDays t) = sint (Unix t) sdiv 86400)
   \<and> (0 \<le> sint (Unix t) \<longrightarrow> sint (Unix t) sdiv 86400 = sint (Unix t) div 86400)
   \<and> unixDays (dayStart d) = d
   \<and> unixDays (dayStart (unixDays t)) = unixDays t"
  by (simp add: secretRecord_LastAccessedDate sint_unixDays unixDays_dayStart
      signed_divide_int_def sgn_if)

theorem lastAccessed_days_witness:
  "- (2 ^ 31) \<le> sint (Unix time_2024) sdiv 86400
   \<and> sint (Unix time_2024) sdiv 86400 < 2 ^ 31
   \<and> 0 \<le> sint (Unix time_2024)
   \<and> sint (unixDays time_2024) = 19723
   \<and> sint (Unix time_2024) div 86400 = 19723
   \<and> unixDays (dayStart 19723) = 19723"
  using lastAccessed_days [of ParquetGo secret_absent time_2024 19723]
  by (simp add: time_2024_def signed_divide_int_def)

text \<open>
  Claim C4 as stated fails where the quotient does not fit the 32-bit date: the timestamp
  of day \<open>2 ^ 31\<close> is exported as day \<open>- (2 ^ 31)\<close>.
\<close>

theorem far_future_days_wrap:
  "sint (Unix time_far) sdiv 86400 = 2147483648
   \<and> sint (unixDays time_far) = - 2147483648
   \<and> SecretRecord.LastAccessedDate
       (secretRecord ParquetGo (secret_absent\<lparr>SecretListEntry.LastAccessedDate := Some time_far\<rparr>))
       = Some (- 2147483648)"
  by (simp add: time_far_def unixDays_def signed_divide_int_def secretRecord_def Let_def
      secret_absent_def)

text \<open>
  Claim C3, as amended. An absent description is exported as an absent description, and
  so is an empty one: the record keeps the description only when it is present and not
  empty, so two secrets that differ only in having no description or an empty one give
  the same record, whatever the writer does with it.
\<close>

theorem secretRecord_description:
  "SecretRecord.Description (secretRecord variant secret) =
     (if SecretListEntry.Description secret = Some '''' then None
      else SecretListEntry.Description secret)
   \<and> secretRecord variant (secret\<lparr>SecretListEntry.Description := Some ''''\<rparr>) =
       secretRecord variant (secret\<lparr>SecretListEntry.Description := None\<rparr>)"
  by (simp add: secretRecord_def Let_def split: option.splits)

theorem secretRecord_description_witness:
  "SecretRecord.Description (secretRecord Xitongsys secret_empty) = None
   \<and> SecretRecord.Description
       (secretRecord Xitongsys (secret_absent\<lparr>SecretListEntry.Description := Some ''db password''\<rparr>))
       = Some ''db password''"
  using secretRecord_description [of Xitongsys secret_empty]
    secretRecord_description
      [of Xitongsys "secret_absent\<lparr>SecretListEntry.Description := Some ''db password''\<rparr>"]
  by (simp add: secret_empty_def secret_absent_def secretRecord_def Let_def)

text \<open>Claim C3 as stated fails: the two inputs give one record, in both copies.\<close>

theorem empty_description_collapses:
  "SecretListEntry.Description secret_absent = None
   \<and> SecretListEntry.Description secret_empty = Some ''''
   \<and> secretRecord ParquetGo secret_absent = secretRecord ParquetGo secret_empty
   \<and> secretRecord Xitongsys secret_absent = secretRecord Xitongsys secret_empty
   \<and> SecretRecord.Description (secretRecord ParquetGo secret_empty) = None"
  by (simp add: secretRecord_def Let_def secret_absent_def secret_empty_def)

subsection \<open>listSecrets and main\<close>

text \<open>Listing makes requests and may print a warning; it touches no file.\<close>

lemma NextPage_frame:
  "NextPage client p w = (r, p', w') \<Longrightarrow>
   files w' = files w \<and> stdout w' = stdout w \<and> stderr w' = stderr w"
  by (auto simp add: NextPage_def client_ListSecrets_def split: if_splits sum.splits)

lemma listSecrets_loop_files:
  "listSecrets_loop n variant client p secrets w = Some (r, w') \<Longrightarrow> files w' = files w"
proof (induction n arbitrary: p secrets w)
  case 0
  then show ?case by (simp split: if_splits)
next
  case (Suc n)
  show ?case
  proof (cases "HasMorePages p")
    case False
    with Suc.prems show ?thesis by simp
  next
    case True
    obtain res p1 w1 where np: "NextPage client p w = (res, p1, w1)"
      by (cases "NextPage client p w") auto
    have f: "files w1 = files w" using NextPage_frame [OF np] by simp
    show ?thesis
    proof (cases res)
      case (Inl err)
      with Suc.prems True np f show ?thesis
        by (auto simp add: Eprint_def split: if_splits)
    next
      case (Inr page)
      with Suc.prems True np have
        "listSecrets_loop n variant client p1
           (secrets @ map (secretRecord variant) (SecretList page)) w1 = Some (r, w')"
        by simp
      from Suc.IH [OF this] f show ?thesis by simp
    qed
  qed
qed

lemma listSecrets_files:
  "listSecrets fuel variant client w = Some (r, w') \<Longrightarrow> files w' = files w"
  unfolding listSecrets_def by (rule listSecrets_loop_files)

lemma listAllKeys_page_stdout:
  "stdout (snd (listAllKeys_page client keys allKeys w)) = stdout w"
  by (induction keys arbitrary: allKeys w)
    (simp_all add: client_DescribeKey_def split: sum.splits)

lemma listAllKeys_loop_stdout:
  "listAllKeys_loop n client marker allKeys w = Some (r, w') \<Longrightarrow> stdout w' = stdout w"
proof (induction n arbitrary: marker allKeys w)
  case 0
  then show ?case by simp
next
  case (Suc n)
  show ?case
  proof (cases "ListKeys client (calls w) marker")
    case (Inl err)
    with Suc.prems show ?thesis by (auto simp add: client_ListKeys_def)
  next
    case (Inr out)
    let ?w1 = "w\<lparr>calls := calls w @ [ListKeysCall marker]\<rparr>"
    obtain ks w2 where pg: "listAllKeys_page client (Keys out) allKeys ?w1 = (ks, w2)"
      by (cases "listAllKeys_page client (Keys out) allKeys ?w1")
    have s2: "stdout w2 = stdout w"
      using listAllKeys_page_stdout [of client "Keys out" allKeys ?w1] pg by simp
    show ?thesis
    proof (cases "Truncated out")
      case False
      with Suc.prems Inr pg s2 show ?thesis by (auto simp add: client_ListKeys_def)
    next
      case True
      with Suc.prems Inr pg have "listAllKeys_loop n client (NextMarker out) ks w2 = Some (r, w')"
        by (simp add: client_ListKeys_def)
      from Suc.IH [OF this] s2 show ?thesis by simp
    qed
  qed
qed

text \<open>The listing at the example services.\<close>

lemma listSecrets_none:
  "listSecrets 1 variant sm_none w =
     Some (Inr [], w\<lparr>calls := calls w @ [ListSecretsCall None]\<rparr>)"
  by (simp add: listSecrets_def NewListSecretsPaginator_def HasMorePages_def NextPage_def
      client_ListSecrets_def sm_none_def)

lemma listSecrets_denied:
  "listSecrets 1 variant sm_denied w =
     Some (Inr [], Eprint ''Warning: Not authorized to list secrets, skipping...\<newline>''
                     (w\<lparr>calls := calls w @ [ListSecretsCall None]\<rparr>))"
  by (simp add: listSecrets_def NewListSecretsPaginator_def HasMorePages_def NextPage_def
      client_ListSecrets_def sm_denied_def err_denied_def isNotAuthorizedError_def)

lemma listSecrets_timeout:
  "listSecrets 1 variant sm_timeout w =
     Some (Inl (Errorf_w ''failed to list secrets: '' err_timeout),
           w\<lparr>calls := calls w @ [ListSecretsCall None]\<rparr>)"
  by (simp add: listSecrets_def NewListSecretsPaginator_def HasMorePages_def NextPage_def
      client_ListSecrets_def sm_timeout_def err_timeout_def isNotAuthorizedError_def)

lemma listSecrets_denied_later:
  "listSecrets 2 variant sm_denied_later world0 =
     Some (Inr [secretRecord variant secret_absent],
           Eprint ''Warning: Not authorized to list secrets, skipping...\<newline>''
             (world0\<lparr>calls := [ListSecretsCall None, ListSecretsCall (Some ''t2'')]\<rparr>))"
  by (simp add: listSecrets_def NewListSecretsPaginator_def HasMorePages_def NextPage_def
      client_ListSecrets_def sm_denied_later_def err_denied_def isNotAuthorizedError_def
      world0_def eval_nat_numeral)

lemma main_secrets_denied_later:
  "main_secrets ParquetGo pq_example 2 None sm_denied_later ''secrets.parquet'' world0 =
     Some (Exit 0
       \<lparr>calls = [ListSecretsCall None, ListSecretsCall (Some ''t2'')],
        stdout = '''',
        stderr = ''Warning: Not authorized to list secrets, skipping...\<newline>Wrote 1 secrets to secrets.parquet\<newline>'',
        files = [''secrets.parquet'' \<mapsto> ''PAR1rPAR1'']\<rparr>)"
  unfolding main_secrets_def listSecrets_denied_later
  by (simp add: writeParquet_def pq_example_def truncateFile_def appendFile_def Eprint_def
      world0_def Let_def secretRecord_def secret_absent_def)

text \<open>Pages that carry a token are fetched one after the other, until a request fails.\<close>

lemma listSecrets_loop_answered:
  assumes "HasMorePages p"
    and "answered client (calls w) (nextToken p) outs"
    and "ListSecrets client (callsAfter (calls w) (nextToken p) outs)
           (tokenAfter (nextToken p) outs) = Inl err"
  shows "listSecrets_loop (length outs + Suc n) variant client p secrets w =
     (if isNotAuthorizedError err
      then Some (Inr (secrets @ recordsOf variant outs),
             Eprint ''Warning: Not authorized to list secrets, skipping...\<newline>''
               (w\<lparr>calls := callsAfter (calls w) (nextToken p) outs
                              @ [ListSecretsCall (tokenAfter (nextToken p) outs)]\<rparr>))
      else Some (Inl (Errorf_w ''failed to list secrets: '' err),
             w\<lparr>calls := callsAfter (calls w) (nextToken p) outs
                            @ [ListSecretsCall (tokenAfter (nextToken p) outs)]\<rparr>))"
  using assms
proof (induction outs arbitrary: p secrets w)
  case Nil
  then show ?case
    by (simp add: NextPage_def client_ListSecrets_def recordsOf_def)
next
  case (Cons out outs)
  let ?p1 = "p\<lparr>firstPage := False, nextToken := NextToken out\<rparr>"
  let ?w1 = "w\<lparr>calls := calls w @ [ListSecretsCall (nextToken p)]\<rparr>"
  from Cons.prems(2) have a: "ListSecrets client (calls w) (nextToken p) = Inr out"
    and t: "case NextToken out of None \<Rightarrow> False | Some t \<Rightarrow> t \<noteq> ''''"
    and r: "answered client (calls ?w1) (nextToken ?p1) outs"
    by simp_all
  have h: "HasMorePages ?p1"
    using t by (simp add: HasMorePages_def split: option.splits)
  have f: "ListSecrets client (callsAfter (calls ?w1) (nextToken ?p1) outs)
             (tokenAfter (nextToken ?p1) outs) = Inl err"
    using Cons.prems(3) by simp
  have s: "listSecrets_loop (length (out # outs) + Suc n) variant client p secrets w =
           listSecrets_loop (length outs + Suc n) variant client ?p1
             (secrets @ map (secretRecord variant) (SecretList out)) ?w1"
    using Cons.prems(1) a by (simp add: NextPage_def client_ListSecrets_def)
  show ?case
    unfolding s Cons.IH [OF h r f]
    by (simp add: recordsOf_def)
qed

text \<open>
  Claim C8, as amended. When the service answers the requests of \<^verbatim>\<open>listSecrets\<close> with pages
  and then fails one with an error that \<^verbatim>\<open>isNotAuthorizedError\<close> accepts, the warning is
  printed and the result is a success that holds exactly the records of the pages fetched
  before, in order; it is empty when those pages held no secret, as when the first
  request is the one that fails. When the error is any other, \<^verbatim>\<open>listSecrets\<close> returns the
  wrapped error and no record, and \<^verbatim>\<open>main\<close> exits with status 1 without touching a file.
  The key lister has no such short cut: an error of \<^verbatim>\<open>ListKeys\<close> at any page, an access
  denial included, ends \<^verbatim>\<open>listAllKeys\<close> with that error and no key, and \<^verbatim>\<open>main\<close> exits with
  status 1 having printed nothing on the standard output.
\<close>

theorem listing_failure:
  "(answered client (calls w) None outs \<longrightarrow>
    ListSecrets client (callsAfter (calls w) None outs) (tokenAfter None outs) = Inl err \<longrightarrow>
      listSecrets (length outs + Suc n) variant client w =
        (if isNotAuthorizedError err
         then Some (Inr (recordsOf variant outs),
                Eprint ''Warning: Not authorized to list secrets, skipping...\<newline>''
                  (w\<lparr>calls := callsAfter (calls w) None outs
                                 @ [ListSecretsCall (tokenAfter None outs)]\<rparr>))
         else Some (Inl (Errorf_w ''failed to list secrets: '' err),
                w\<lparr>calls := callsAfter (calls w) None outs
                               @ [ListSecretsCall (tokenAfter None outs)]\<rparr>)))
   \<and> (listSecrets fuel variant client w = Some (Inl err, w1) \<longrightarrow>
        main_secrets variant lib fuel None client outfile w =
          Some (Exit 1 (Eprint (''Error listing secrets: '' @ errorText err @ ''\<newline>'') w1))
        \<and> files w1 = files w)
   \<and> (fetched kclient w None kouts \<longrightarrow>
       ListKeys kclient (calls (afterPages w None kouts)) (markerAfter None kouts) = Inl err \<longrightarrow>
        listAllKeys (length kouts + Suc n) kclient w =
          Some (Inl err,
                (afterPages w None kouts)
                  \<lparr>calls := calls (afterPages w None kouts)
                              @ [ListKeysCall (markerAfter None kouts)]\<rparr>))
   \<and> (listAllKeys fuel kclient w = Some (Inl err, w1) \<longrightarrow>
        main_keys glib rangeKeys fuel None kclient w =
          Some (Exit 1 (Eprint (''Error listing keys: '' @ errorText err @ ''\<newline>'') w1))
        \<and> stdout w1 = stdout w)"
proof (intro conjI impI)
  assume a: "answered client (calls w) None outs"
    and f: "ListSecrets client (callsAfter (calls w) None outs) (tokenAfter None outs) = Inl err"
  have h: "HasMorePages NewListSecretsPaginator"
    by (simp add: HasMorePages_def NewListSecretsPaginator_def)
  have t: "nextToken NewListSecretsPaginator = None"
    by (simp add: NewListSecretsPaginator_def)
  show "listSecrets (length outs + Suc n) variant client w =
        (if isNotAuthorizedError err
         then Some (Inr (recordsOf variant outs),
                Eprint ''Warning: Not authorized to list secrets, skipping...\<newline>''
                  (w\<lparr>calls := callsAfter (calls w) None outs
                                 @ [ListSecretsCall (tokenAfter None outs)]\<rparr>))
         else Some (Inl (Errorf_w ''failed to list secrets: '' err),
                w\<lparr>calls := callsAfter (calls w) None outs
                               @ [ListSecretsCall (tokenAfter None outs)]\<rparr>))"
    unfolding listSecrets_def
    using listSecrets_loop_answered [OF h, of client w outs err n variant "[]"] a f
    by (simp add: t)
next
  assume l: "listSecrets fuel variant client w = Some (Inl err, w1)"
  then show "main_secrets variant lib fuel None client outfile w =
          Some (Exit 1 (Eprint (''Error listing secrets: '' @ errorText err @ ''\<newline>'') w1))"
    by (simp add: main_secrets_def)
  from l show "files w1 = files w" by (rule listSecrets_files)
next
  assume "fetched kclient w None kouts"
    and "ListKeys kclient (calls (afterPages w None kouts)) (markerAfter None kouts) = Inl err"
  then show "listAllKeys (length kouts + Suc n) kclient w =
          Some (Inl err,
                (afterPages w None kouts)
                  \<lparr>calls := calls (afterPages w None kouts)
                              @ [ListKeysCall (markerAfter None kouts)]\<rparr>)"
    by (rule listAllKeys_fetched_failure)
next
  assume l: "listAllKeys fuel kclient w = Some (Inl err, w1)"
  then show "main_keys glib rangeKeys fuel None kclient w =
          Some (Exit 1 (Eprint (''Error listing keys: '' @ errorText err @ ''\<newline>'') w1))"
    by (simp add: main_keys_def)
  from l show "stdout w1 = stdout w"
    unfolding listAllKeys_def by (rule listAllKeys_loop_stdout)
qed

theorem listing_failure_witness:
  "answered (sm_two_then err_denied) (calls world0) None [page_db, page_api]
   \<and> ListSecrets (sm_two_then err_denied) (callsAfter (calls world0) None [page_db, page_api])
        (tokenAfter None [page_db, page_api]) = Inl err_denied
   \<and> isNotAuthorizedError err_denied
   \<and> listSecrets 3 ParquetGo (sm_two_then err_denied) world0 =
       Some (Inr [secretRecord ParquetGo secret_absent, secretRecord ParquetGo secret_api],
             Eprint ''Warning: Not authorized to list secrets, skipping...\<newline>''
               (world0\<lparr>calls := [ListSecretsCall None, ListSecretsCall (Some ''t2''),
                                  ListSecretsCall (Some ''t3'')]\<rparr>))
   \<and> answered (sm_two_then err_timeout) (calls world0) None [page_db, page_api]
   \<and> ListSecrets (sm_two_then err_timeout) (callsAfter (calls world0) None [page_db, page_api])
        (tokenAfter None [page_db, page_api]) = Inl err_timeout
   \<and> \<not> isNotAuthorizedError err_timeout
   \<and> listSecrets 3 ParquetGo (sm_two_then err_timeout) world0 =
       Some (Inl (Errorf_w ''failed to list secrets: '' err_timeout),
             world0\<lparr>calls := [ListSecretsCall None, ListSecretsCall (Some ''t2''),
                                ListSecretsCall (Some ''t3'')]\<rparr>)
   \<and> main_secrets ParquetGo pq_example 3 None (sm_two_then err_timeout) ''secrets.parquet''
        world0 =
       Some (Exit 1
         (Eprint ''Error listing secrets: failed to list secrets: request timed out\<newline>''
            (world0\<lparr>calls := [ListSecretsCall None, ListSecretsCall (Some ''t2''),
                               ListSecretsCall (Some ''t3'')]\<rparr>)))
   \<and> fetched kms_page_then_denied world0 None [page_AF]
   \<and> ListKeys kms_page_then_denied (calls (afterPages world0 None [page_AF]))
        (markerAfter None [page_AF]) = Inl err_denied
   \<and> listAllKeys 2 kms_page_then_denied world0 =
       Some (Inl err_denied,
             world0\<lparr>calls := [ListKeysCall None, DescribeKeyCall ''A'', DescribeKeyCall ''F'',
                                ListKeysCall (Some ''m2'')]\<rparr>)
   \<and> main_keys lib_example sorted_list_of_set 2 None kms_page_then_denied world0 =
       Some (Exit 1
         (Eprint ''Error listing keys: api error AccessDeniedException: not allowed\<newline>''
            (world0\<lparr>calls := [ListKeysCall None, DescribeKeyCall ''A'', DescribeKeyCall ''F'',
                               ListKeysCall (Some ''m2'')]\<rparr>)))"
proof -
  let ?outs = "[page_db, page_api]"
  let ?w3 = "world0\<lparr>calls := [ListSecretsCall None, ListSecretsCall (Some ''t2''),
                                ListSecretsCall (Some ''t3'')]\<rparr>"
  let ?k = "world0\<lparr>calls := [ListKeysCall None, DescribeKeyCall ''A'', DescribeKeyCall ''F'',
                                ListKeysCall (Some ''m2'')]\<rparr>"
  have a: "answered (sm_two_then err) (calls world0) None ?outs" for err
    by (simp add: sm_two_then_def page_db_def page_api_def)
  have f: "ListSecrets (sm_two_then err) (callsAfter (calls world0) None ?outs)
             (tokenAfter None ?outs) = Inl err" for err
    by (simp add: sm_two_then_def page_db_def page_api_def)
  have d: "isNotAuthorizedError err_denied" "\<not> isNotAuthorizedError err_timeout"
    by (simp_all add: isNotAuthorizedError_def err_denied_def err_timeout_def)
  have e: "3 = length ?outs + Suc 0" by simp
  have c: "world0\<lparr>calls := callsAfter (calls world0) None ?outs
                              @ [ListSecretsCall (tokenAfter None ?outs)]\<rparr> = ?w3"
    by (simp add: page_db_def page_api_def world0_def)
  have r: "recordsOf ParquetGo ?outs =
             [secretRecord ParquetGo secret_absent, secretRecord ParquetGo secret_api]"
    by (simp add: recordsOf_def page_db_def page_api_def)
  note t = listing_failure [where client = "sm_two_then err_denied" and w = world0
      and outs = ?outs and err = err_denied and n = 0 and variant = ParquetGo]
  note u = listing_failure [where client = "sm_two_then err_timeout" and w = world0
      and outs = ?outs and err = err_timeout and n = 0 and variant = ParquetGo]
  have l1: "listSecrets 3 ParquetGo (sm_two_then err_denied) world0 =
       Some (Inr [secretRecord ParquetGo secret_absent, secretRecord ParquetGo secret_api],
             Eprint ''Warning: Not authorized to list secrets, skipping...\<newline>'' ?w3)"
    unfolding e using t a f d by (simp only: c r if_True)
  have l2: "listSecrets 3 ParquetGo (sm_two_then err_timeout) world0 =
       Some (Inl (Errorf_w ''failed to list secrets: '' err_timeout), ?w3)"
    unfolding e using u a f d by (simp only: c r if_False)
  have m1: "main_secrets ParquetGo pq_example 3 None (sm_two_then err_timeout)
              ''secrets.parquet'' world0 =
       Some (Exit 1
         (Eprint ''Error listing secrets: failed to list secrets: request timed out\<newline>''
            ?w3))"
    using listing_failure [where fuel = 3 and variant = ParquetGo
        and client = "sm_two_then err_timeout" and w = world0
        and err = "Errorf_w ''failed to list secrets: '' err_timeout" and ?w1.0 = ?w3
        and lib = pq_example and outfile = "''secrets.parquet''"] l2
    by (simp add: Errorf_w_def err_timeout_def)
  have g: "fetched kms_page_then_denied world0 None [page_AF]"
    by (simp add: kms_page_then_denied_def page_AF_def)
  have h: "ListKeys kms_page_then_denied (calls (afterPages world0 None [page_AF]))
        (markerAfter None [page_AF]) = Inl err_denied"
    by (simp add: kms_page_then_denied_def page_AF_def)
  have e2: "2 = length [page_AF] + Suc 0" by simp
  have c2: "(afterPages world0 None [page_AF])
              \<lparr>calls := calls (afterPages world0 None [page_AF])
                          @ [ListKeysCall (markerAfter None [page_AF])]\<rparr> = ?k"
    by (simp add: afterPage_def describeCalls_def page_AF_def world0_def)
  have l3: "listAllKeys 2 kms_page_then_denied world0 = Some (Inl err_denied, ?k)"
    unfolding e2
    using listing_failure [where kclient = kms_page_then_denied and w = world0
        and kouts = "[page_AF]" and err = err_denied and n = 0] g h
    by (simp only: c2)
  have m2: "main_keys lib_example sorted_list_of_set 2 None kms_page_then_denied world0 =
       Some (Exit 1
         (Eprint ''Error listing keys: api error AccessDeniedException: not allowed\<newline>''
            ?k))"
    using listing_failure [where fuel = 2 and kclient = kms_page_then_denied and w = world0
        and err = err_denied and ?w1.0 = ?k and glib = lib_example
        and rangeKeys = sorted_list_of_set] l3
    by (simp add: err_denied_def)
  show ?thesis
    using a f d l1 l2 m1 g h l3 m2 by simp
qed

text \<open>
  Claim C8 as stated fails when the denial comes after a page: the result is not empty,
  and \<^verbatim>\<open>main\<close> writes the records of the first page to the file and exits with status 0.
\<close>

theorem denied_later_page_partial_inventory:
  "listSecrets 2 ParquetGo sm_denied_later world0 =
     Some (Inr [secretRecord ParquetGo secret_absent],
           Eprint ''Warning: Not authorized to list secrets, skipping...\<newline>''
             (world0\<lparr>calls := [ListSecretsCall None, ListSecretsCall (Some ''t2'')]\<rparr>))
   \<and> [secretRecord ParquetGo secret_absent] \<noteq> []
   \<and> main_secrets ParquetGo pq_example 2 None sm_denied_later ''secrets.parquet'' world0 =
     Some (Exit 0
       \<lparr>calls = [ListSecretsCall None, ListSecretsCall (Some ''t2'')],
        stdout = '''',
        stderr = ''Warning: Not authorized to list secrets, skipping...\<newline>Wrote 1 secrets to secrets.parquet\<newline>'',
        files = [''secrets.parquet'' \<mapsto> ''PAR1rPAR1'']\<rparr>)"
  by (simp add: listSecrets_denied_later main_secrets_denied_later)

text \<open>
  Claim C10. When the listing returns no record, \<^verbatim>\<open>main\<close> prints \<^verbatim>\<open>No secrets found\<close> on the
  error stream and exits with status 0, and the files are those from before the run:
  \<^verbatim>\<open>writeParquet\<close> is not called.
\<close>

theorem empty_listing_skips_export:
  "listSecrets fuel variant client w = Some (Inr [], w1) \<Longrightarrow>
   main_secrets variant lib fuel None client outfile w =
     Some (Exit 0 (Eprint ''No secrets found\<newline>'' w1))
   \<and> files (Eprint ''No secrets found\<newline>'' w1) = files w
   \<and> stderr (Eprint ''No secrets found\<newline>'' w1) = stderr w1 @ ''No secrets found\<newline>''"
  by (simp add: main_secrets_def Eprint_def listSecrets_files)

theorem empty_listing_skips_export_witness:
  "listSecrets 1 ParquetGo sm_none world0 =
     Some (Inr [], world0\<lparr>calls := [ListSecretsCall None]\<rparr>)
   \<and> main_secrets ParquetGo pq_example 1 None sm_none ''secrets.parquet'' world0 =
       Some (Exit 0 (Eprint ''No secrets found\<newline>'' (world0\<lparr>calls := [ListSecretsCall None]\<rparr>)))
   \<and> files (Eprint ''No secrets found\<newline>'' (world0\<lparr>calls := [ListSecretsCall None]\<rparr>))
       = files world0
   \<and> main_secrets Xitongsys pq_example 1 None sm_denied ''secrets.parquet'' world0 =
       Some (Exit 0 (Eprint ''No secrets found\<newline>''
         (Eprint ''Warning: Not authorized to list secrets, skipping...\<newline>''
            (world0\<lparr>calls := [ListSecretsCall None]\<rparr>))))"
proof -
  have a: "listSecrets 1 ParquetGo sm_none world0 =
     Some (Inr [], world0\<lparr>calls := [ListSecretsCall None]\<rparr>)"
    using listSecrets_none [of ParquetGo world0] by (simp add: world0_def)
  have b: "listSecrets 1 Xitongsys sm_denied world0 =
     Some (Inr [], Eprint ''Warning: Not authorized to list secrets, skipping...\<newline>''
            (world0\<lparr>calls := [ListSecretsCall None]\<rparr>))"
    using listSecrets_denied [of Xitongsys world0] by (simp add: world0_def)
  show ?thesis
    using a empty_listing_skips_export [OF a, of pq_example "''secrets.parquet''"]
      empty_listing_skips_export [OF b, of pq_example "''secrets.parquet''"]
    by simp
qed

end
